theory Spec2Isabelle
  imports Main "HOL-Library.AList"
begin

section \<open>Data model of \<^verbatim>\<open>pal_hardware_gazebo.cpp\<close>\<close>

text \<open>
  The file under verification defines five member functions of the class
  \<^verbatim>\<open>PalHardwareGazebo\<close>: \<^verbatim>\<open>parseForceTorqueSensors\<close>, \<^verbatim>\<open>parseIMUSensors\<close>,
  \<^verbatim>\<open>initSim\<close>, \<^verbatim>\<open>readSim\<close> and \<^verbatim>\<open>writeSim\<close>. Each one is embedded below as a function
  that takes the object (\<^verbatim>\<open>this\<close>) as a record and returns the updated record.
  A \<^verbatim>\<open>return false\<close> is the value \<open>False\<close> in the first component of the result.

  Members keep their names without the trailing underscore (\<^verbatim>\<open>rw_resources_\<close> is
  \<open>rw_resources\<close>); \<^verbatim>\<open>JointInfo::name_\<close> is \<open>jname\<close>.

  Values of type \<^verbatim>\<open>double\<close> are only copied by this file, never computed with; they
  are values of a type variable \<open>'v\<close>.
\<close>

subsection \<open>The transmission description\<close>

record JointInfo =
  jname :: string
  hardware_interfaces :: "string list"

record TransmissionInfo =
  joints :: "JointInfo list"

subsection \<open>Resources\<close>

text \<open>
  The four classes \<^verbatim>\<open>internal::JointState\<close>, \<^verbatim>\<open>internal::PositionJoint\<close>,
  \<^verbatim>\<open>internal::VelocityJoint\<close> and \<^verbatim>\<open>internal::EffortJoint\<close>. Their members are not
  declared in this file; a resource is its joint name, its class, and the rest of
  the object as a value of a type variable \<open>'b\<close>.
\<close>

datatype variant = JointState | PositionJoint | VelocityJoint | EffortJoint

record 'b resource =
  res_name :: string
  res_kind :: variant
  buffers :: 'b

definition res_key :: "'b resource \<Rightarrow> string \<times> variant" where
  "res_key r = (res_name r, res_kind r)"

text \<open>What \<^verbatim>\<open>res->init\<close> can throw, as the three \<^verbatim>\<open>catch\<close> clauses of \<^verbatim>\<open>initSim\<close> tell them apart.\<close>

datatype init_error =
    ExistingResourceException
  | RuntimeError string
  | UnknownException

subsection \<open>The \<^verbatim>\<open>RobotHW\<close> base object\<close>

datatype iface_id =
    JointStateInterface
  | EffortJointInterface
  | PositionJointInterface
  | VelocityJointInterface
  | ForceTorqueSensorInterface
  | ImuSensorInterface

text \<open>
  \<open>interfaces\<close> holds the interfaces passed to \<^verbatim>\<open>registerInterface\<close>; each joint
  interface is the list of the joint names that have a handle in it.
\<close>

record RobotHW =
  interfaces :: "iface_id list"
  js_interface :: "string list"
  ej_interface :: "string list"
  pj_interface :: "string list"
  vj_interface :: "string list"

definition registerInterface :: "iface_id \<Rightarrow> RobotHW \<Rightarrow> RobotHW" where
  "registerInterface i h =
     (if i \<in> set (interfaces h) then h else h\<lparr>interfaces := interfaces h @ [i]\<rparr>)"

fun handle_names :: "RobotHW \<Rightarrow> variant \<Rightarrow> string list" where
  "handle_names h JointState = js_interface h"
| "handle_names h PositionJoint = pj_interface h"
| "handle_names h VelocityJoint = vj_interface h"
| "handle_names h EffortJoint = ej_interface h"

subsection \<open>Sensor definitions and sensor handles\<close>

text \<open>
  A \<^verbatim>\<open>double[3]\<close> buffer is a triple and the quaternion buffer a quadruple: the
  source always stores all components of a buffer together.
  \<open>gazebo_joint\<close> and \<open>gazebo_imu_sensor\<close> are non-null pointers, as numbers: the source
  stores a definition in its list only after the null check.
\<close>

record SensorDefinition =
  sensorName :: string
  sensorFrame :: string

record 'v ForceTorqueSensorDefinition = SensorDefinition +
  gazebo_joint :: nat
  sensorJointName :: string
  force :: "'v \<times> 'v \<times> 'v"
  torque :: "'v \<times> 'v \<times> 'v"

record 'v ImuSensorDefinition = SensorDefinition +
  gazebo_imu_sensor :: nat
  orientation :: "'v \<times> 'v \<times> 'v \<times> 'v"
  base_ang_vel :: "'v \<times> 'v \<times> 'v"
  linear_acceleration :: "'v \<times> 'v \<times> 'v"

text \<open>
  The address of a buffer: the position of its definition in the list that owns
  it, and the member. This is what \<^verbatim>\<open>&ft->force[0]\<close> is in the source.
\<close>

datatype buf_ref =
    ForceOf nat
  | TorqueOf nat
  | OrientationOf nat
  | AngularVelocityOf nat
  | LinearAccelerationOf nat

record SensorHandle =
  h_name :: string
  h_frame_id :: string

record ForceTorqueSensorHandle = SensorHandle +
  h_force :: buf_ref
  h_torque :: buf_ref

record ImuSensorHandle = SensorHandle +
  h_orientation :: buf_ref
  h_linear_acceleration :: buf_ref
  h_angular_velocity :: buf_ref

text \<open>\<^verbatim>\<open>ResourceManager::registerHandle\<close>: a handle replaces one of the same name.\<close>

definition registerHandle ::
  "'m SensorHandle_scheme \<Rightarrow> (string \<times> 'm SensorHandle_scheme) list
     \<Rightarrow> (string \<times> 'm SensorHandle_scheme) list" where
  "registerHandle h reg = AList.update (h_name h) h reg"

subsection \<open>The external context\<close>

text \<open>
  The simulator at one instant, by the calls the source makes on it:
  \<^verbatim>\<open>model->GetJoint(name)\<close>, \<^verbatim>\<open>SensorManager::Instance()->GetSensor(name)\<close> followed by
  the cast to \<^verbatim>\<open>ImuSensor\<close> (\<open>None\<close> is the null pointer), and the four sampling calls
  on a joint or sensor. \<open>actuators\<close> is the part only the resources use.
\<close>

record 'v JointWrench =
  body2Force :: "'v \<times> 'v \<times> 'v"
  body2Torque :: "'v \<times> 'v \<times> 'v"

record ('v, 'a) gazebo =
  GetJoint :: "string \<Rightarrow> nat option"
  GetSensor :: "string \<Rightarrow> nat option"
  GetForceTorque :: "nat \<Rightarrow> 'v JointWrench"
  GetOrientation :: "nat \<Rightarrow> 'v \<times> 'v \<times> 'v \<times> 'v"
  GetAngularVelocity :: "nat \<Rightarrow> 'v \<times> 'v \<times> 'v"
  GetLinearAcceleration :: "nat \<Rightarrow> 'v \<times> 'v \<times> 'v"
  actuators :: 'a

text \<open>
  The parameter server behind \<^verbatim>\<open>ros::NodeHandle\<close>: \<open>getIds ns\<close> is \<^verbatim>\<open>getIds(nh, ns)\<close>,
  \<open>fetchParam ns id key\<close> is \<^verbatim>\<open>xh::fetchParam\<close> on the handle of sensor \<open>id\<close> in
  namespace \<open>ns\<close>, and \<open>enable_joint_mode_switching\<close> is \<open>None\<close> when the parameter
  is not set.
\<close>

record NodeHandle =
  getIds :: "string \<Rightarrow> string list"
  fetchParam :: "string \<Rightarrow> string \<Rightarrow> string \<Rightarrow> string"
  enable_joint_mode_switching :: "bool option"

type_synonym ros_time = "nat \<times> nat"
type_synonym ros_duration = "int \<times> int"

subsection \<open>The object\<close>

text \<open>
  \<open>rw_resources\<close> owns the resources. \<open>active_w_resources_rt\<close> holds pointers to
  resources of \<open>rw_resources\<close>; a pointer is the position of the resource in
  \<open>rw_resources\<close>, which \<^verbatim>\<open>push_back\<close> never changes.
\<close>

record ('v, 'b) PalHardwareGazebo =
  hw :: RobotHW
  transmission_infos :: "TransmissionInfo list"
  rw_resources :: "'b resource list"
  active_w_resources_rt :: "nat list"
  e_stop_active :: bool
  mode_switch_enabled :: bool
  forceTorqueSensorDefinitions :: "'v ForceTorqueSensorDefinition list"
  imuSensorDefinitions :: "'v ImuSensorDefinition list"
  ft_sensor_interface :: "(string \<times> ForceTorqueSensorHandle) list"
  imu_sensor_interface :: "(string \<times> ImuSensorHandle) list"

text \<open>
  The code this file calls and does not define: the virtual functions \<^verbatim>\<open>init\<close>,
  \<^verbatim>\<open>read\<close> and \<^verbatim>\<open>write\<close> of a resource and \<^verbatim>\<open>initActiveWriteResources\<close> of the base
  class. They are parameters of the embedding.
  \<^item> \<open>res_init v name nh model hw\<close> is \<^verbatim>\<open>res->init(name, nh, model, urdf_model, this)\<close>
    on a new object of class \<open>v\<close>: either the exception thrown, or the initialised
    resource and the \<^verbatim>\<open>RobotHW\<close> part of the object as \<^verbatim>\<open>init\<close> leaves it.
  \<^item> \<open>res_read time period e_stop g r\<close> is the resource after \<^verbatim>\<open>r->read(time, period, e_stop)\<close>.
  \<^item> \<open>res_write time period e_stop r g\<close> is the resource and the simulator after
    \<^verbatim>\<open>r->write(time, period, e_stop)\<close>.
  \<^item> \<open>initActiveWriteResources s\<close> is the value the base class gives \<open>active_w_resources_rt\<close>.
\<close>

record ('v, 'a, 'b) collaborators =
  res_init :: "variant \<Rightarrow> string \<Rightarrow> NodeHandle \<Rightarrow> ('v, 'a) gazebo \<Rightarrow> RobotHW
                 \<Rightarrow> init_error + ('b resource \<times> RobotHW)"
  res_read :: "ros_time \<Rightarrow> ros_duration \<Rightarrow> bool \<Rightarrow> ('v, 'a) gazebo \<Rightarrow> 'b resource \<Rightarrow> 'b resource"
  res_write :: "ros_time \<Rightarrow> ros_duration \<Rightarrow> bool \<Rightarrow> 'b resource \<Rightarrow> ('v, 'a) gazebo
                 \<Rightarrow> 'b resource \<times> ('v, 'a) gazebo"
  initActiveWriteResources :: "('v, 'b) PalHardwareGazebo \<Rightarrow> nat list"

text \<open>The object as the constructor leaves it.\<close>

definition constructed :: "('v, 'b) PalHardwareGazebo" where
  "constructed =
     \<lparr>hw = \<lparr>interfaces = [], js_interface = [], ej_interface = [],
            pj_interface = [], vj_interface = []\<rparr>,
      transmission_infos = [], rw_resources = [], active_w_resources_rt = [],
      e_stop_active = False, mode_switch_enabled = True,
      forceTorqueSensorDefinitions = [], imuSensorDefinitions = [],
      ft_sensor_interface = [], imu_sensor_interface = []\<rparr>"

section \<open>The sensor parsers\<close>

text \<open>
  \<^verbatim>\<open>parseForceTorqueSensors\<close>, lines 52 to 83. \<open>new_ft_definition\<close> is the object built
  at lines 69 to 73, with the joint found; a fresh definition has its buffers at \<open>0\<close>.
  \<open>ft_loop\<close> is the \<^verbatim>\<open>for\<close> loop over \<^verbatim>\<open>ft_ids\<close>.
\<close>

definition new_ft_definition ::
  "string \<Rightarrow> string \<Rightarrow> string \<Rightarrow> nat \<Rightarrow> ('v::zero) ForceTorqueSensorDefinition" where
  "new_ft_definition sensor_name sensor_joint_name sensor_frame_id j =
     \<lparr>sensorName = sensor_name, sensorFrame = sensor_frame_id,
      gazebo_joint = j, sensorJointName = sensor_joint_name,
      force = (0, 0, 0), torque = (0, 0, 0)\<rparr>"

fun ft_loop ::
  "NodeHandle \<Rightarrow> ('v, 'a) gazebo \<Rightarrow> string list \<Rightarrow> ('v::zero, 'b) PalHardwareGazebo
     \<Rightarrow> bool \<times> ('v, 'b) PalHardwareGazebo" where
  "ft_loop nh model [] s = (True, s)"
| "ft_loop nh model (sensor_name # ids) s =
     (let sensor_frame_id = fetchParam nh ''force_torque'' sensor_name ''frame'';
          sensor_joint_name = fetchParam nh ''force_torque'' sensor_name ''sensor_joint''
      in case GetJoint model sensor_joint_name of
           None \<Rightarrow> (False, s)
         | Some j \<Rightarrow>
             ft_loop nh model ids
               (s\<lparr>forceTorqueSensorDefinitions := forceTorqueSensorDefinitions s @
                    [new_ft_definition sensor_name sensor_joint_name sensor_frame_id j]\<rparr>))"

definition parseForceTorqueSensors ::
  "NodeHandle \<Rightarrow> ('v, 'a) gazebo \<Rightarrow> ('v::zero, 'b) PalHardwareGazebo
     \<Rightarrow> bool \<times> ('v, 'b) PalHardwareGazebo" where
  "parseForceTorqueSensors nh model s = ft_loop nh model (getIds nh ''force_torque'') s"

text \<open>
  \<^verbatim>\<open>parseIMUSensors\<close>, lines 85 to 115. \<open>new_imu_definition\<close> is the object built at lines
  109 and 110.
\<close>

definition new_imu_definition ::
  "string \<Rightarrow> string \<Rightarrow> nat \<Rightarrow> ('v::zero) ImuSensorDefinition" where
  "new_imu_definition sensor_name sensor_frame_id imu_sensor =
     \<lparr>sensorName = sensor_name, sensorFrame = sensor_frame_id,
      gazebo_imu_sensor = imu_sensor,
      orientation = (0, 0, 0, 0), base_ang_vel = (0, 0, 0),
      linear_acceleration = (0, 0, 0)\<rparr>"

fun imu_loop ::
  "NodeHandle \<Rightarrow> ('v, 'a) gazebo \<Rightarrow> string list \<Rightarrow> ('v::zero, 'b) PalHardwareGazebo
     \<Rightarrow> bool \<times> ('v, 'b) PalHardwareGazebo" where
  "imu_loop nh model [] s = (True, s)"
| "imu_loop nh model (sensor_name # ids) s =
     (let sensor_frame_id = fetchParam nh ''imu'' sensor_name ''frame''
      in case GetSensor model ''imu_sensor'' of
           None \<Rightarrow> (False, s)
         | Some imu_sensor \<Rightarrow>
             imu_loop nh model ids
               (s\<lparr>imuSensorDefinitions := imuSensorDefinitions s @
                    [new_imu_definition sensor_name sensor_frame_id imu_sensor]\<rparr>))"

definition parseIMUSensors ::
  "NodeHandle \<Rightarrow> ('v, 'a) gazebo \<Rightarrow> ('v::zero, 'b) PalHardwareGazebo
     \<Rightarrow> bool \<times> ('v, 'b) PalHardwareGazebo" where
  "parseIMUSensors nh model s = imu_loop nh model (getIds nh ''imu'') s"

section \<open>\<^verbatim>\<open>initSim\<close>\<close>

text \<open>The \<^verbatim>\<open>if\<close>/\<^verbatim>\<open>else if\<close> chain of lines 151 to 166; \<open>None\<close> is \<^verbatim>\<open>res\<close> left null.\<close>

definition new_resource :: "string \<Rightarrow> variant option" where
  "new_resource iface_type =
     (if iface_type = ''hardware_interface/JointStateInterface'' then Some JointState
      else if iface_type = ''hardware_interface/PositionJointInterface'' then Some PositionJoint
      else if iface_type = ''hardware_interface/VelocityJointInterface'' then Some VelocityJoint
      else if iface_type = ''hardware_interface/EffortJointInterface'' then Some EffortJoint
      else None)"

text \<open>
  The body of the innermost loop, lines 148 to 196. An exception leaves the object
  as it was before the call.
\<close>

definition add_resource ::
  "('v, 'a, 'b) collaborators \<Rightarrow> NodeHandle \<Rightarrow> ('v, 'a) gazebo \<Rightarrow> string \<Rightarrow> string
     \<Rightarrow> ('v, 'b) PalHardwareGazebo \<Rightarrow> bool \<times> ('v, 'b) PalHardwareGazebo" where
  "add_resource ext nh model joint_name iface_type s =
     (case new_resource iface_type of
        None \<Rightarrow> (True, s)
      | Some v \<Rightarrow>
          (case res_init ext v joint_name nh model (hw s) of
             Inr (res, hw') \<Rightarrow> (True, s\<lparr>hw := hw', rw_resources := rw_resources s @ [res]\<rparr>)
           | Inl ExistingResourceException \<Rightarrow> (True, s)
           | Inl (RuntimeError ex) \<Rightarrow> (False, s)
           | Inl UnknownException \<Rightarrow> (False, s)))"

fun iface_loop ::
  "('v, 'a, 'b) collaborators \<Rightarrow> NodeHandle \<Rightarrow> ('v, 'a) gazebo \<Rightarrow> string \<Rightarrow> string list
     \<Rightarrow> ('v, 'b) PalHardwareGazebo \<Rightarrow> bool \<times> ('v, 'b) PalHardwareGazebo" where
  "iface_loop ext nh model joint_name [] s = (True, s)"
| "iface_loop ext nh model joint_name (iface_type # ts) s =
     (case add_resource ext nh model joint_name iface_type s of
        (False, s') \<Rightarrow> (False, s')
      | (True, s') \<Rightarrow> iface_loop ext nh model joint_name ts s')"

fun joint_loop ::
  "('v, 'a, 'b) collaborators \<Rightarrow> NodeHandle \<Rightarrow> ('v, 'a) gazebo \<Rightarrow> JointInfo list
     \<Rightarrow> ('v, 'b) PalHardwareGazebo \<Rightarrow> bool \<times> ('v, 'b) PalHardwareGazebo" where
  "joint_loop ext nh model [] s = (True, s)"
| "joint_loop ext nh model (joint_info # js) s =
     (case iface_loop ext nh model (jname joint_info) (hardware_interfaces joint_info) s of
        (False, s') \<Rightarrow> (False, s')
      | (True, s') \<Rightarrow> joint_loop ext nh model js s')"

fun transmission_loop ::
  "('v, 'a, 'b) collaborators \<Rightarrow> NodeHandle \<Rightarrow> ('v, 'a) gazebo \<Rightarrow> TransmissionInfo list
     \<Rightarrow> ('v, 'b) PalHardwareGazebo \<Rightarrow> bool \<times> ('v, 'b) PalHardwareGazebo" where
  "transmission_loop ext nh model [] s = (True, s)"
| "transmission_loop ext nh model (tr_info # trs) s =
     (case joint_loop ext nh model (joints tr_info) s of
        (False, s') \<Rightarrow> (False, s')
      | (True, s') \<Rightarrow> transmission_loop ext nh model trs s')"

text \<open>
  The two loops that register the sensor handles, lines 216 to 222 and 228 to 238.
  \<open>ft_handle i ft\<close> is the handle of lines 218 to 221 for the definition \<open>ft\<close> at position
  \<open>i\<close>, \<open>imu_handle i imu\<close> the handle of lines 231 to 237.
\<close>

definition ft_handle :: "nat \<Rightarrow> 'v ForceTorqueSensorDefinition \<Rightarrow> ForceTorqueSensorHandle" where
  "ft_handle i ft =
     \<lparr>h_name = sensorName ft, h_frame_id = sensorFrame ft,
      h_force = ForceOf i, h_torque = TorqueOf i\<rparr>"

definition imu_handle :: "nat \<Rightarrow> 'v ImuSensorDefinition \<Rightarrow> ImuSensorHandle" where
  "imu_handle i imu =
     \<lparr>h_name = sensorName imu, h_frame_id = sensorFrame imu,
      h_orientation = OrientationOf i,
      h_linear_acceleration = LinearAccelerationOf i,
      h_angular_velocity = AngularVelocityOf i\<rparr>"

definition register_ft_handles :: "('v, 'b) PalHardwareGazebo \<Rightarrow> ('v, 'b) PalHardwareGazebo" where
  "register_ft_handles s =
     foldl (\<lambda>s i. s\<lparr>ft_sensor_interface :=
                       registerHandle (ft_handle i (forceTorqueSensorDefinitions s ! i))
                         (ft_sensor_interface s)\<rparr>)
       s [0 ..< length (forceTorqueSensorDefinitions s)]"

definition register_imu_handles :: "('v, 'b) PalHardwareGazebo \<Rightarrow> ('v, 'b) PalHardwareGazebo" where
  "register_imu_handles s =
     foldl (\<lambda>s i. s\<lparr>imu_sensor_interface :=
                       registerHandle (imu_handle i (imuSensorDefinitions s ! i))
                         (imu_sensor_interface s)\<rparr>)
       s [0 ..< length (imuSensorDefinitions s)]"

text \<open>
  Lines 202 to 243, the part of \<^verbatim>\<open>initSim\<close> after the resource loops. The result of
  \<^verbatim>\<open>parseForceTorqueSensors\<close> is not used (line 214), and \<^verbatim>\<open>parseIMUSensors\<close> is not
  called.
\<close>

definition init_sensors ::
  "('v, 'a, 'b) collaborators \<Rightarrow> NodeHandle \<Rightarrow> ('v, 'a) gazebo
     \<Rightarrow> ('v::zero, 'b) PalHardwareGazebo \<Rightarrow> ('v, 'b) PalHardwareGazebo" where
  "init_sensors ext nh model s =
     (let s = s\<lparr>e_stop_active := False\<rparr>;
          s = s\<lparr>mode_switch_enabled := True\<rparr>;
          s = (case enable_joint_mode_switching nh of
                 None \<Rightarrow> s
               | Some b \<Rightarrow> s\<lparr>mode_switch_enabled := b\<rparr>);
          s = s\<lparr>active_w_resources_rt := initActiveWriteResources ext s\<rparr>;
          s = snd (parseForceTorqueSensors nh model s);
          s = register_ft_handles s;
          s = s\<lparr>hw := registerInterface ForceTorqueSensorInterface (hw s)\<rparr>;
          s = register_imu_handles s;
          s = s\<lparr>hw := registerInterface ImuSensorInterface (hw s)\<rparr>
      in s)"

definition initSim ::
  "('v, 'a, 'b) collaborators \<Rightarrow> NodeHandle \<Rightarrow> ('v, 'a) gazebo \<Rightarrow> TransmissionInfo list
     \<Rightarrow> ('v::zero, 'b) PalHardwareGazebo \<Rightarrow> bool \<times> ('v, 'b) PalHardwareGazebo" where
  "initSim ext nh model transmissions s =
     (let s = s\<lparr>hw := registerInterface JointStateInterface (hw s)\<rparr>;
          s = s\<lparr>hw := registerInterface EffortJointInterface (hw s)\<rparr>;
          s = s\<lparr>hw := registerInterface PositionJointInterface (hw s)\<rparr>;
          s = s\<lparr>hw := registerInterface VelocityJointInterface (hw s)\<rparr>;
          s = s\<lparr>transmission_infos := transmissions\<rparr>
      in case transmission_loop ext nh model (transmission_infos s) s of
           (False, s') \<Rightarrow> (False, s')
         | (True, s') \<Rightarrow> (True, init_sensors ext nh model s'))"

section \<open>\<^verbatim>\<open>readSim\<close> and \<^verbatim>\<open>writeSim\<close>\<close>

definition read_resources ::
  "('v, 'a, 'b) collaborators \<Rightarrow> ros_time \<Rightarrow> ros_duration \<Rightarrow> ('v, 'a) gazebo
     \<Rightarrow> ('v, 'b) PalHardwareGazebo \<Rightarrow> ('v, 'b) PalHardwareGazebo" where
  "read_resources ext time period g s =
     foldl (\<lambda>s i. s\<lparr>rw_resources := (rw_resources s)
                       [i := res_read ext time period (e_stop_active s) g (rw_resources s ! i)]\<rparr>)
       s [0 ..< length (rw_resources s)]"

text \<open>
  \<open>sample_ft g ft\<close> is the definition \<open>ft\<close> after lines 257 to 263, \<open>sample_imu g imu\<close> the
  definition \<open>imu\<close> after lines 270 to 284.
\<close>

definition sample_ft ::
  "('v, 'a) gazebo \<Rightarrow> 'v ForceTorqueSensorDefinition \<Rightarrow> 'v ForceTorqueSensorDefinition" where
  "sample_ft g ft =
     (let ft_wrench = GetForceTorque g (gazebo_joint ft)
      in ft\<lparr>force := body2Force ft_wrench, torque := body2Torque ft_wrench\<rparr>)"

definition sample_imu ::
  "('v, 'a) gazebo \<Rightarrow> 'v ImuSensorDefinition \<Rightarrow> 'v ImuSensorDefinition" where
  "sample_imu g imu =
     (let imu_quat = GetOrientation g (gazebo_imu_sensor imu);
          imu_ang_vel = GetAngularVelocity g (gazebo_imu_sensor imu);
          imu_lin_acc = GetLinearAcceleration g (gazebo_imu_sensor imu)
      in imu\<lparr>orientation := imu_quat, base_ang_vel := imu_ang_vel,
              linear_acceleration := imu_lin_acc\<rparr>)"

definition read_ft_sensors ::
  "('v, 'a) gazebo \<Rightarrow> ('v, 'b) PalHardwareGazebo \<Rightarrow> ('v, 'b) PalHardwareGazebo" where
  "read_ft_sensors g s =
     foldl (\<lambda>s i. s\<lparr>forceTorqueSensorDefinitions := (forceTorqueSensorDefinitions s)
                       [i := sample_ft g (forceTorqueSensorDefinitions s ! i)]\<rparr>)
       s [0 ..< length (forceTorqueSensorDefinitions s)]"

definition read_imu_sensors ::
  "('v, 'a) gazebo \<Rightarrow> ('v, 'b) PalHardwareGazebo \<Rightarrow> ('v, 'b) PalHardwareGazebo" where
  "read_imu_sensors g s =
     foldl (\<lambda>s i. s\<lparr>imuSensorDefinitions := (imuSensorDefinitions s)
                       [i := sample_imu g (imuSensorDefinitions s ! i)]\<rparr>)
       s [0 ..< length (imuSensorDefinitions s)]"

definition readSim ::
  "('v, 'a, 'b) collaborators \<Rightarrow> ros_time \<Rightarrow> ros_duration \<Rightarrow> ('v, 'a) gazebo
     \<Rightarrow> ('v, 'b) PalHardwareGazebo \<Rightarrow> ('v, 'b) PalHardwareGazebo" where
  "readSim ext time period g s =
     read_imu_sensors g (read_ft_sensors g (read_resources ext time period g s))"

text \<open>
  \<^verbatim>\<open>writeSim\<close>, lines 290 to 298: one \<^verbatim>\<open>write\<close> per entry of \<open>active_w_resources_rt\<close>, in
  order, on the resource the entry points to. A pointer of the source always points to a
  resource; a position beyond the end of \<open>rw_resources\<close> points to none, and the loop
  passes it. The lock of line 292 orders \<^verbatim>\<open>writeSim\<close> against changes of the active
  writers by another thread and has no part in a single call.
\<close>

definition write_resource ::
  "('v, 'a, 'b) collaborators \<Rightarrow> ros_time \<Rightarrow> ros_duration
     \<Rightarrow> ('v, 'b) PalHardwareGazebo \<times> ('v, 'a) gazebo \<Rightarrow> nat
     \<Rightarrow> ('v, 'b) PalHardwareGazebo \<times> ('v, 'a) gazebo" where
  "write_resource ext time period sg i =
     (let s = fst sg; g = snd sg
      in if i < length (rw_resources s)
         then (let (res, g') = res_write ext time period (e_stop_active s) (rw_resources s ! i) g
               in (s\<lparr>rw_resources := (rw_resources s)[i := res]\<rparr>, g'))
         else (s, g))"

definition writeSim ::
  "('v, 'a, 'b) collaborators \<Rightarrow> ros_time \<Rightarrow> ros_duration
     \<Rightarrow> ('v, 'b) PalHardwareGazebo \<times> ('v, 'a) gazebo
     \<Rightarrow> ('v, 'b) PalHardwareGazebo \<times> ('v, 'a) gazebo" where
  "writeSim ext time period sg =
     foldl (write_resource ext time period) sg (active_w_resources_rt (fst sg))"

section \<open>The resource loops as one loop\<close>

text \<open>
  The three nested loops of lines 141 to 200 visit the pairs of a joint name and an
  interface type in the order of \<open>declared_pairs\<close>; \<open>pair_loop\<close> is the loop over that
  list. Lemma \<open>transmission_loop_pairs\<close> below shows that it is the same loop.
\<close>

definition joint_pairs :: "JointInfo \<Rightarrow> (string \<times> string) list" where
  "joint_pairs joint_info = map (Pair (jname joint_info)) (hardware_interfaces joint_info)"

definition declared_pairs :: "TransmissionInfo list \<Rightarrow> (string \<times> string) list" where
  "declared_pairs trs = concat (map (\<lambda>tr_info. concat (map joint_pairs (joints tr_info))) trs)"

fun pair_loop ::
  "('v, 'a, 'b) collaborators \<Rightarrow> NodeHandle \<Rightarrow> ('v, 'a) gazebo \<Rightarrow> (string \<times> string) list
     \<Rightarrow> ('v, 'b) PalHardwareGazebo \<Rightarrow> bool \<times> ('v, 'b) PalHardwareGazebo" where
  "pair_loop ext nh model [] s = (True, s)"
| "pair_loop ext nh model (p # ps) s =
     (case add_resource ext nh model (fst p) (snd p) s of
        (False, s') \<Rightarrow> (False, s')
      | (True, s') \<Rightarrow> pair_loop ext nh model ps s')"

text \<open>The object when \<^verbatim>\<open>initSim\<close> enters the resource loops (lines 131 to 137).\<close>

definition at_loop_entry ::
  "TransmissionInfo list \<Rightarrow> ('v, 'b) PalHardwareGazebo \<Rightarrow> ('v, 'b) PalHardwareGazebo" where
  "at_loop_entry transmissions s =
     s\<lparr>hw := registerInterface VelocityJointInterface
               (registerInterface PositionJointInterface
                 (registerInterface EffortJointInterface
                   (registerInterface JointStateInterface (hw s)))),
       transmission_infos := transmissions\<rparr>"

text \<open>A transmission description without the interface types that line 151 to 166 do not know.\<close>

definition recognised_only :: "TransmissionInfo list \<Rightarrow> TransmissionInfo list" where
  "recognised_only trs =
     map (\<lambda>tr_info. tr_info\<lparr>joints :=
            map (\<lambda>joint_info. joint_info\<lparr>hardware_interfaces :=
                   filter (\<lambda>iface_type. new_resource iface_type \<noteq> None)
                     (hardware_interfaces joint_info)\<rparr>)
              (joints tr_info)\<rparr>) trs"

section \<open>The resources as the specification describes them\<close>

text \<open>
  Modelled from the spec: the function \<^verbatim>\<open>init\<close> of the four resource classes is called by
  this file and defined outside it. Sections 4.1 and 4.2 of the specification: \<^verbatim>\<open>init\<close>
  fails with the already-exists condition exactly when a resource of this class is
  registered for this joint; it fails when the joint is not in the external model; when it
  succeeds, the resource bears the joint name and the class, and the new handle is the only
  change to the joint interfaces.
\<close>

definition init_contract ::
  "(variant \<Rightarrow> string \<Rightarrow> NodeHandle \<Rightarrow> ('v, 'a) gazebo \<Rightarrow> RobotHW
      \<Rightarrow> init_error + ('b resource \<times> RobotHW))
     \<Rightarrow> NodeHandle \<Rightarrow> ('v, 'a) gazebo \<Rightarrow> bool" where
  "init_contract init nh model \<longleftrightarrow>
     (\<forall>v n h.
        (case init v n nh model h of
           Inl e \<Rightarrow> (e = ExistingResourceException \<longleftrightarrow> n \<in> set (handle_names h v))
         | Inr (r, h') \<Rightarrow>
             n \<notin> set (handle_names h v) \<and> GetJoint model n \<noteq> None \<and>
             res_name r = n \<and> res_kind r = v \<and>
             (\<forall>v'. set (handle_names h' v') =
                     set (handle_names h v') \<union> (if v' = v then {n} else {}))))"

text \<open>
  An object on which no resource has been initialised: what \<^verbatim>\<open>initSim\<close> is called on.
\<close>

definition no_resources :: "('v, 'b) PalHardwareGazebo \<Rightarrow> bool" where
  "no_resources s \<longleftrightarrow> rw_resources s = [] \<and> (\<forall>v. handle_names (hw s) v = [])"

text \<open>
  Modelled from the spec: the function \<^verbatim>\<open>write\<close> of the resource classes is defined outside
  this file. Section 4.2 of the specification: \<^verbatim>\<open>write\<close> applies a command to the actuator
  of the resource's own joint and class, and with the emergency stop active that command is
  the safe value of the class. \<open>target k g\<close> is the command that the simulator \<open>g\<close> holds
  for the joint and class \<open>k\<close>, \<open>safe k g\<close> the safe value for it. A \<^verbatim>\<open>write\<close> leaves the
  targets of the other joints and classes, the safe values, and the name and class of the
  resource as they are.
\<close>

definition write_frame ::
  "(ros_time \<Rightarrow> ros_duration \<Rightarrow> bool \<Rightarrow> 'b resource \<Rightarrow> 'g \<Rightarrow> 'b resource \<times> 'g)
     \<Rightarrow> (string \<times> variant \<Rightarrow> 'g \<Rightarrow> 'c) \<Rightarrow> bool" where
  "write_frame wr target \<longleftrightarrow>
     (\<forall>time period e r g.
        res_key (fst (wr time period e r g)) = res_key r \<and>
        (\<forall>k. k \<noteq> res_key r \<longrightarrow> target k (snd (wr time period e r g)) = target k g))"

text \<open>
  Modelled from the spec: section 4.2 and the emergency-stop paragraph of section 4.4, for the
  \<^verbatim>\<open>write\<close> defined outside this file: with the flag set, \<^verbatim>\<open>write\<close> leaves the safe value in
  the command target of its own joint and class; no \<^verbatim>\<open>write\<close> changes a safe value.
\<close>

definition write_safe ::
  "(ros_time \<Rightarrow> ros_duration \<Rightarrow> bool \<Rightarrow> 'b resource \<Rightarrow> 'g \<Rightarrow> 'b resource \<times> 'g)
     \<Rightarrow> (string \<times> variant \<Rightarrow> 'g \<Rightarrow> 'c) \<Rightarrow> (string \<times> variant \<Rightarrow> 'g \<Rightarrow> 'c) \<Rightarrow> bool" where
  "write_safe wr target safe \<longleftrightarrow>
     (\<forall>time period e r g.
        (\<forall>k. safe k (snd (wr time period e r g)) = safe k g) \<and>
        (e \<longrightarrow> target (res_key r) (snd (wr time period e r g)) = safe (res_key r) g))"

subsection \<open>One implementation of the resources\<close>

text \<open>
  Modelled from the spec: resource classes that do what section 4.2 of the specification
  says and no more. A resource holds the handle of its joint, a position buffer and a command
  buffer; the simulator holds the position of every joint and the command applied for every
  joint and class. The safe value is \<open>0\<close>. The initial active writers are the resources that
  are not of class \<open>JointState\<close>.
\<close>

record 'v joint_buffers =
  buf_joint :: nat
  buf_position :: 'v
  buf_command :: 'v

record 'v actuator_state =
  joint_position :: "nat \<Rightarrow> 'v"
  command_target :: "string \<times> variant \<Rightarrow> 'v"

text \<open>
  Modelled from the spec: the handle that a successful \<^verbatim>\<open>init\<close> registers in the joint
  interface of its class.
\<close>

fun add_handle :: "variant \<Rightarrow> string \<Rightarrow> RobotHW \<Rightarrow> RobotHW" where
  "add_handle JointState n h = h\<lparr>js_interface := js_interface h @ [n]\<rparr>"
| "add_handle PositionJoint n h = h\<lparr>pj_interface := pj_interface h @ [n]\<rparr>"
| "add_handle VelocityJoint n h = h\<lparr>vj_interface := vj_interface h @ [n]\<rparr>"
| "add_handle EffortJoint n h = h\<lparr>ej_interface := ej_interface h @ [n]\<rparr>"

text \<open>
  Modelled from the spec: \<^verbatim>\<open>init\<close> of section 4.2. It fails with the already-exists condition
  when the joint has a handle in the interface of the class, fails with a runtime error when
  the joint is not in the model, and otherwise binds the resource to the joint and registers
  its handle.
\<close>

definition ref_init ::
  "variant \<Rightarrow> string \<Rightarrow> NodeHandle \<Rightarrow> ('v, 'a) gazebo \<Rightarrow> RobotHW
     \<Rightarrow> init_error + (('v::zero) joint_buffers resource \<times> RobotHW)" where
  "ref_init v n nh model h =
     (if n \<in> set (handle_names h v) then Inl ExistingResourceException
      else case GetJoint model n of
             None \<Rightarrow> Inl (RuntimeError ''joint not found'')
           | Some j \<Rightarrow>
               Inr (\<lparr>res_name = n, res_kind = v,
                     buffers = \<lparr>buf_joint = j, buf_position = 0, buf_command = 0\<rparr>\<rparr>,
                    add_handle v n h))"

text \<open>
  Modelled from the spec: \<^verbatim>\<open>read\<close> of section 4.2 copies the position of the joint into the
  buffer of the resource.
\<close>

definition ref_read ::
  "ros_time \<Rightarrow> ros_duration \<Rightarrow> bool \<Rightarrow> ('v, 'v actuator_state) gazebo
     \<Rightarrow> 'v joint_buffers resource \<Rightarrow> 'v joint_buffers resource" where
  "ref_read time period e g r =
     r\<lparr>buffers := (buffers r)
         \<lparr>buf_position := joint_position (actuators g) (buf_joint (buffers r))\<rparr>\<rparr>"

text \<open>
  Modelled from the spec: \<^verbatim>\<open>write\<close> of section 4.2 applies the command buffer to the target
  of the resource's joint and class, or the safe value when the emergency stop is active.
\<close>

definition ref_write ::
  "ros_time \<Rightarrow> ros_duration \<Rightarrow> bool \<Rightarrow> ('v::zero) joint_buffers resource
     \<Rightarrow> ('v, 'v actuator_state) gazebo
     \<Rightarrow> 'v joint_buffers resource \<times> ('v, 'v actuator_state) gazebo" where
  "ref_write time period e r g =
     (r, g\<lparr>actuators := (actuators g)
             \<lparr>command_target := (command_target (actuators g))
                (res_key r := (if e then 0 else buf_command (buffers r)))\<rparr>\<rparr>)"

text \<open>
  Modelled from the spec: \<^verbatim>\<open>initActiveWriteResources\<close> of the base class; section 4.4 has the
  active-writer set default to all resources that can write.
\<close>

definition ref_active :: "('v, 'b) PalHardwareGazebo \<Rightarrow> nat list" where
  "ref_active s =
     filter (\<lambda>i. res_kind (rw_resources s ! i) \<noteq> JointState) [0 ..< length (rw_resources s)]"

text \<open>Modelled from the spec: the four functions above as the collaborators of the object.\<close>

definition ref_resources ::
  "('v::zero, 'v actuator_state, 'v joint_buffers) collaborators" where
  "ref_resources =
     \<lparr>res_init = ref_init, res_read = ref_read, res_write = ref_write,
      initActiveWriteResources = ref_active\<rparr>"

subsection \<open>Example configurations\<close>

text \<open>
  A simulator with the joint \<open>j1\<close> (handle 1) and the inertial sensor \<open>imu_sensor\<close>
  (handle 7), and one without an inertial sensor.
\<close>

definition example_gazebo :: "(int, int actuator_state) gazebo" where
  "example_gazebo =
     \<lparr>GetJoint = (\<lambda>n. if n = ''j1'' then Some 1 else None),
      GetSensor = (\<lambda>n. if n = ''imu_sensor'' then Some 7 else None),
      GetForceTorque = (\<lambda>j. \<lparr>body2Force = (1, 2, 3), body2Torque = (4, 5, 6)\<rparr>),
      GetOrientation = (\<lambda>i. (0, 0, 0, 1)),
      GetAngularVelocity = (\<lambda>i. (7, 8, 9)),
      GetLinearAcceleration = (\<lambda>i. (10, 11, 12)),
      actuators = \<lparr>joint_position = (\<lambda>j. 40), command_target = (\<lambda>k. 50)\<rparr>\<rparr>"

text \<open>
  Parameters that declare the force-torque sensors \<open>ft0\<close> on joint \<open>j1\<close> and \<open>ft1\<close> on the
  joint \<open>j2\<close>, and the inertial sensors \<open>imu0\<close> and \<open>imu1\<close>.
\<close>

definition example_nh :: NodeHandle where
  "example_nh =
     \<lparr>getIds = (\<lambda>ns. if ns = ''force_torque'' then [''ft0'', ''ft1'']
                     else if ns = ''imu'' then [''imu0'', ''imu1''] else []),
      fetchParam = (\<lambda>ns sensor key.
                      if key = ''frame'' then sensor @ ''_link''
                      else if sensor = ''ft0'' then ''j1'' else ''j2''),
      enable_joint_mode_switching = None\<rparr>"

definition joint_with :: "string \<Rightarrow> string list \<Rightarrow> TransmissionInfo" where
  "joint_with n ts = \<lparr>joints = [\<lparr>jname = n, hardware_interfaces = ts\<rparr>]\<rparr>"

text \<open>
  An object with a position resource and an effort resource on joint \<open>j1\<close>, of which only
  the first is an active writer.
\<close>

definition example_object :: "(int, int joint_buffers) PalHardwareGazebo" where
  "example_object =
     constructed
       \<lparr>rw_resources :=
          [\<lparr>res_name = ''j1'', res_kind = PositionJoint,
            buffers = \<lparr>buf_joint = 1, buf_position = 0, buf_command = 5\<rparr>\<rparr>,
           \<lparr>res_name = ''j1'', res_kind = EffortJoint,
            buffers = \<lparr>buf_joint = 1, buf_position = 0, buf_command = 9\<rparr>\<rparr>],
        active_w_resources_rt := [0]\<rparr>"

section \<open>Auxiliary functions for the proofs\<close>

text \<open>
  What \<open>ft_loop\<close> and \<open>imu_loop\<close> append to their lists: the definitions of the sensors
  declared before the first one that cannot be resolved.
\<close>

fun ft_parsed ::
  "NodeHandle \<Rightarrow> ('v, 'a) gazebo \<Rightarrow> string list \<Rightarrow> ('v::zero) ForceTorqueSensorDefinition list" where
  "ft_parsed nh model [] = []"
| "ft_parsed nh model (sensor_name # ids) =
     (case GetJoint model (fetchParam nh ''force_torque'' sensor_name ''sensor_joint'') of
        None \<Rightarrow> []
      | Some j \<Rightarrow>
          new_ft_definition sensor_name
            (fetchParam nh ''force_torque'' sensor_name ''sensor_joint'')
            (fetchParam nh ''force_torque'' sensor_name ''frame'') j
          # ft_parsed nh model ids)"

fun imu_parsed ::
  "NodeHandle \<Rightarrow> ('v, 'a) gazebo \<Rightarrow> string list \<Rightarrow> ('v::zero) ImuSensorDefinition list" where
  "imu_parsed nh model [] = []"
| "imu_parsed nh model (sensor_name # ids) =
     (case GetSensor model ''imu_sensor'' of
        None \<Rightarrow> []
      | Some imu_sensor \<Rightarrow>
          new_imu_definition sensor_name (fetchParam nh ''imu'' sensor_name ''frame'') imu_sensor
          # imu_parsed nh model ids)"

text \<open>
  The content of a sensor interface after the handle loop over the definitions \<open>ds\<close>,
  started with the content \<open>reg\<close>.
\<close>

definition ft_handles ::
  "'v ForceTorqueSensorDefinition list \<Rightarrow> (string \<times> ForceTorqueSensorHandle) list
     \<Rightarrow> (string \<times> ForceTorqueSensorHandle) list" where
  "ft_handles ds reg = foldl (\<lambda>reg i. registerHandle (ft_handle i (ds ! i)) reg) reg [0 ..< length ds]"

definition imu_handles ::
  "'v ImuSensorDefinition list \<Rightarrow> (string \<times> ImuSensorHandle) list
     \<Rightarrow> (string \<times> ImuSensorHandle) list" where
  "imu_handles ds reg = foldl (\<lambda>reg i. registerHandle (imu_handle i (ds ! i)) reg) reg [0 ..< length ds]"

text \<open>
  The invariant of the resource loops: the resources have different joint and class pairs,
  the joint interfaces hold the handles of exactly these resources, and every resource is
  bound to a joint of the model.
\<close>

definition resources_registered ::
  "('v, 'a) gazebo \<Rightarrow> ('v, 'b) PalHardwareGazebo \<Rightarrow> bool" where
  "resources_registered model s \<longleftrightarrow>
     distinct (map res_key (rw_resources s)) \<and>
     (\<forall>v n. n \<in> set (handle_names (hw s) v) \<longleftrightarrow> (n, v) \<in> set (map res_key (rw_resources s))) \<and>
     (\<forall>r \<in> set (rw_resources s). GetJoint model (res_name r) \<noteq> None)"

section \<open>Properties of the resource loops\<close>

lemma pair_loop_append:
  "pair_loop ext nh model (xs @ ys) s =
     (case pair_loop ext nh model xs s of
        (False, s') \<Rightarrow> (False, s')
      | (True, s') \<Rightarrow> pair_loop ext nh model ys s')"
  by (induction xs arbitrary: s) (auto split: prod.splits bool.splits)

lemma iface_loop_pairs:
  "iface_loop ext nh model n ts s = pair_loop ext nh model (map (Pair n) ts) s"
  by (induction ts arbitrary: s) (auto split: prod.splits bool.splits)

lemma joint_loop_pairs:
  "joint_loop ext nh model js s = pair_loop ext nh model (concat (map joint_pairs js)) s"
  by (induction js arbitrary: s)
     (auto simp: pair_loop_append iface_loop_pairs joint_pairs_def split: prod.splits bool.splits)

lemma transmission_loop_pairs:
  "transmission_loop ext nh model trs s = pair_loop ext nh model (declared_pairs trs) s"
  by (induction trs arbitrary: s)
     (auto simp: pair_loop_append joint_loop_pairs declared_pairs_def split: prod.splits bool.splits)

lemma initSim_pairs:
  "initSim ext nh model trs s =
     (case pair_loop ext nh model (declared_pairs trs) (at_loop_entry trs s) of
        (False, s') \<Rightarrow> (False, s')
      | (True, s') \<Rightarrow> (True, init_sensors ext nh model s'))"
  by (simp add: initSim_def at_loop_entry_def transmission_loop_pairs Let_def)

lemma set_declared_pairs:
  "(n, t) \<in> set (declared_pairs trs) \<longleftrightarrow>
     (\<exists>tr_info \<in> set trs. \<exists>joint_info \<in> set (joints tr_info).
        n = jname joint_info \<and> t \<in> set (hardware_interfaces joint_info))"
  by (auto simp: declared_pairs_def joint_pairs_def)

lemma add_resource_unrecognised:
  "new_resource t = None \<Longrightarrow> add_resource ext nh model n t s = (True, s)"
  by (simp add: add_resource_def)

lemma pair_loop_filter:
  "pair_loop ext nh model (filter (\<lambda>p. new_resource (snd p) \<noteq> None) ps) s =
   pair_loop ext nh model ps s"
  by (induction ps arbitrary: s) (auto simp: add_resource_unrecognised split: prod.splits bool.splits)

lemma declared_pairs_recognised_only:
  "declared_pairs (recognised_only trs) =
     filter (\<lambda>p. new_resource (snd p) \<noteq> None) (declared_pairs trs)"
  by (induction trs)
     (auto simp: declared_pairs_def recognised_only_def joint_pairs_def filter_concat filter_map
        comp_def)

lemma add_resource_shape:
  "\<exists>h rs. snd (add_resource ext nh model n t s) = s\<lparr>hw := h, rw_resources := rs\<rparr>"
proof (cases "new_resource t")
  case None
  then have "snd (add_resource ext nh model n t s) = s"
    by (simp add: add_resource_def)
  then show ?thesis by (intro exI[of _ "hw s"] exI[of _ "rw_resources s"]) simp
next
  case (Some v)
  show ?thesis
  proof (cases "res_init ext v n nh model (hw s)")
    case (Inl e)
    have "snd (add_resource ext nh model n t s) = s"
      using Some Inl by (cases e) (simp_all add: add_resource_def)
    then show ?thesis by (intro exI[of _ "hw s"] exI[of _ "rw_resources s"]) simp
  next
    case (Inr x)
    then show ?thesis using Some by (cases x) (auto simp: add_resource_def)
  qed
qed

lemma pair_loop_shape:
  "\<exists>h rs. snd (pair_loop ext nh model ps s) = s\<lparr>hw := h, rw_resources := rs\<rparr>"
proof (induction ps arbitrary: s)
  case Nil
  show ?case by (intro exI[of _ "hw s"] exI[of _ "rw_resources s"]) simp
next
  case (Cons p ps)
  obtain b s1 where step: "add_resource ext nh model (fst p) (snd p) s = (b, s1)"
    by (cases "add_resource ext nh model (fst p) (snd p) s")
  obtain h1 rs1 where s1: "s1 = s\<lparr>hw := h1, rw_resources := rs1\<rparr>"
    using add_resource_shape[of ext nh model "fst p" "snd p" s] step by auto
  show ?case
  proof (cases b)
    case False
    then show ?thesis using step s1 by auto
  next
    case True
    obtain h2 rs2 where "snd (pair_loop ext nh model ps s1) = s1\<lparr>hw := h2, rw_resources := rs2\<rparr>"
      using Cons.IH[of s1] by auto
    then have "snd (pair_loop ext nh model (p # ps) s) = s\<lparr>hw := h2, rw_resources := rs2\<rparr>"
      using step True s1 by simp
    then show ?thesis by blast
  qed
qed

lemma add_resource_transmission_infos:
  "add_resource ext nh model n t (s\<lparr>transmission_infos := x\<rparr>) =
     (fst (add_resource ext nh model n t s),
      (snd (add_resource ext nh model n t s))\<lparr>transmission_infos := x\<rparr>)"
proof (cases "new_resource t")
  case None
  then show ?thesis by (simp add: add_resource_def)
next
  case (Some v)
  show ?thesis
  proof (cases "res_init ext v n nh model (hw s)")
    case (Inl e)
    then show ?thesis using Some by (cases e) (simp_all add: add_resource_def)
  next
    case (Inr x)
    then show ?thesis using Some by (cases x) (simp add: add_resource_def)
  qed
qed

lemma pair_loop_transmission_infos:
  "pair_loop ext nh model ps (s\<lparr>transmission_infos := x\<rparr>) =
     (fst (pair_loop ext nh model ps s),
      (snd (pair_loop ext nh model ps s))\<lparr>transmission_infos := x\<rparr>)"
proof (induction ps arbitrary: s)
  case Nil
  show ?case by simp
next
  case (Cons p ps)
  obtain b s1 where step: "add_resource ext nh model (fst p) (snd p) s = (b, s1)"
    by (cases "add_resource ext nh model (fst p) (snd p) s")
  show ?case
    using step Cons.IH[of s1]
    by (cases b) (simp_all add: add_resource_transmission_infos)
qed

section \<open>Properties of the sensor parsers and of the handle loops\<close>

lemma ft_loop_eq:
  "ft_loop nh model ids s =
     (list_all (\<lambda>sensor_name.
         GetJoint model (fetchParam nh ''force_torque'' sensor_name ''sensor_joint'') \<noteq> None) ids,
      s\<lparr>forceTorqueSensorDefinitions := forceTorqueSensorDefinitions s @ ft_parsed nh model ids\<rparr>)"
  by (induction ids arbitrary: s) (auto simp: Let_def split: option.splits)

lemma imu_loop_eq:
  "imu_loop nh model ids s =
     (ids = [] \<or> GetSensor model ''imu_sensor'' \<noteq> None,
      s\<lparr>imuSensorDefinitions := imuSensorDefinitions s @ imu_parsed nh model ids\<rparr>)"
  by (induction ids arbitrary: s) (auto simp: Let_def split: option.splits)

lemma ft_parsed_prefix:
  assumes "\<forall>sensor_name \<in> set pre.
             GetJoint model (fetchParam nh ''force_torque'' sensor_name ''sensor_joint'') \<noteq> None"
      and "GetJoint model (fetchParam nh ''force_torque'' bad ''sensor_joint'') = None"
  shows "ft_parsed nh model (pre @ bad # post) = ft_parsed nh model pre"
  using assms by (induction pre) (auto split: option.splits)

lemma ft_parsed_names:
  assumes "\<forall>sensor_name \<in> set pre.
             GetJoint model (fetchParam nh ''force_torque'' sensor_name ''sensor_joint'') \<noteq> None"
  shows "map sensorName (ft_parsed nh model pre) = pre"
  using assms by (induction pre) (auto simp: new_ft_definition_def split: option.splits)

lemma ft_parsed_frames:
  "ft \<in> set (ft_parsed nh model ids) \<Longrightarrow>
     sensorFrame ft = fetchParam nh ''force_torque'' (sensorName ft) ''frame'' \<and>
     GetJoint model (sensorJointName ft) = Some (gazebo_joint ft)"
  by (induction ids) (auto simp: new_ft_definition_def split: option.splits)

lemma register_ft_fold:
  "foldl (\<lambda>s i. s\<lparr>ft_sensor_interface :=
                    registerHandle (ft_handle i (forceTorqueSensorDefinitions s ! i))
                      (ft_sensor_interface s)\<rparr>) s ixs =
   s\<lparr>ft_sensor_interface :=
       foldl (\<lambda>reg i. registerHandle (ft_handle i (forceTorqueSensorDefinitions s ! i)) reg)
         (ft_sensor_interface s) ixs\<rparr>"
  by (induction ixs arbitrary: s) simp_all

lemma register_ft_handles_eq:
  "register_ft_handles s =
     s\<lparr>ft_sensor_interface := ft_handles (forceTorqueSensorDefinitions s) (ft_sensor_interface s)\<rparr>"
  by (simp add: register_ft_handles_def ft_handles_def register_ft_fold)

lemma register_imu_fold:
  "foldl (\<lambda>s i. s\<lparr>imu_sensor_interface :=
                    registerHandle (imu_handle i (imuSensorDefinitions s ! i))
                      (imu_sensor_interface s)\<rparr>) s ixs =
   s\<lparr>imu_sensor_interface :=
       foldl (\<lambda>reg i. registerHandle (imu_handle i (imuSensorDefinitions s ! i)) reg)
         (imu_sensor_interface s) ixs\<rparr>"
  by (induction ixs arbitrary: s) simp_all

lemma register_imu_handles_eq:
  "register_imu_handles s =
     s\<lparr>imu_sensor_interface := imu_handles (imuSensorDefinitions s) (imu_sensor_interface s)\<rparr>"
  by (simp add: register_imu_handles_def imu_handles_def register_imu_fold)

lemma ft_handles_lookup_aux:
  assumes "distinct (map sensorName ds)" and "n \<le> length ds" and "i < n"
  shows "map_of (foldl (\<lambda>reg i. registerHandle (ft_handle i (ds ! i)) reg) reg [0 ..< n])
           (sensorName (ds ! i)) = Some (ft_handle i (ds ! i))"
  using assms(2,3)
proof (induction n)
  case 0
  then show ?case by simp
next
  case (Suc n)
  show ?case
  proof (cases "i = n")
    case True
    then show ?thesis
      by (simp add: registerHandle_def update_conv' ft_handle_def)
  next
    case False
    then have "i < n" using Suc.prems by simp
    moreover have "sensorName (ds ! n) \<noteq> sensorName (ds ! i)"
      using assms(1) Suc.prems False by (simp add: distinct_conv_nth)
    ultimately show ?thesis
      using Suc.IH Suc.prems by (simp add: registerHandle_def update_conv' ft_handle_def)
  qed
qed

lemma ft_handles_lookup:
  "distinct (map sensorName ds) \<Longrightarrow> i < length ds \<Longrightarrow>
     map_of (ft_handles ds reg) (sensorName (ds ! i)) = Some (ft_handle i (ds ! i))"
  unfolding ft_handles_def by (rule ft_handles_lookup_aux) simp_all

lemma imu_handles_nil: "imu_handles [] reg = reg"
  by (simp add: imu_handles_def)

text \<open>What the last part of \<open>initSim\<close> leaves in each member.\<close>

lemma init_sensors_fields:
  "rw_resources (init_sensors ext nh model s) = rw_resources s"
  "e_stop_active (init_sensors ext nh model s) = False"
  "imuSensorDefinitions (init_sensors ext nh model s) = imuSensorDefinitions s"
  "forceTorqueSensorDefinitions (init_sensors ext nh model s) =
     forceTorqueSensorDefinitions s @ ft_parsed nh model (getIds nh ''force_torque'')"
  "ft_sensor_interface (init_sensors ext nh model s) =
     ft_handles (forceTorqueSensorDefinitions s @ ft_parsed nh model (getIds nh ''force_torque''))
       (ft_sensor_interface s)"
  "imu_sensor_interface (init_sensors ext nh model s) =
     imu_handles (imuSensorDefinitions s) (imu_sensor_interface s)"
  "hw (init_sensors ext nh model s) =
     registerInterface ImuSensorInterface (registerInterface ForceTorqueSensorInterface (hw s))"
  by (simp_all add: init_sensors_def Let_def parseForceTorqueSensors_def ft_loop_eq
        register_ft_handles_eq register_imu_handles_eq split: option.splits)

section \<open>The properties of the specification\<close>

subsection \<open>Initialisation\<close>

lemma ref_init_contract: "init_contract ref_init nh model"
  unfolding init_contract_def
proof (intro allI)
  fix v n h
  have names: "\<And>v'. set (handle_names (add_handle v n h) v') =
                 set (handle_names h v') \<union> (if v' = v then {n} else {})"
  proof -
    fix v'
    show "set (handle_names (add_handle v n h) v') =
                 set (handle_names h v') \<union> (if v' = v then {n} else {})"
      by (cases v; cases v') auto
  qed
  show "case ref_init v n nh model h of
          Inl e \<Rightarrow> (e = ExistingResourceException) = (n \<in> set (handle_names h v))
        | Inr (r, h') \<Rightarrow>
            n \<notin> set (handle_names h v) \<and> GetJoint model n \<noteq> None \<and>
            res_name r = n \<and> res_kind r = v \<and>
            (\<forall>v'. set (handle_names h' v') =
                    set (handle_names h v') \<union> (if v' = v then {n} else {}))"
    using names by (auto simp: ref_init_def split: option.splits)
qed

text \<open>
  C5. An interface type that is not one of the four recognised strings creates no resource:
  the pair leaves the object as it is and the loops go on. \<open>initSim\<close> returns the same
  result, with the same resources and the same interfaces, as on the description without
  the unrecognised types.
\<close>

theorem unrecognised_interface_is_skipped:
  "(new_resource t = None \<longrightarrow> add_resource ext nh model n t s = (True, s)) \<and>
   fst (initSim ext nh model trs s) = fst (initSim ext nh model (recognised_only trs) s) \<and>
   rw_resources (snd (initSim ext nh model trs s)) =
     rw_resources (snd (initSim ext nh model (recognised_only trs) s)) \<and>
   hw (snd (initSim ext nh model trs s)) = hw (snd (initSim ext nh model (recognised_only trs) s))"
proof -
  let ?ps = "declared_pairs trs"
  define s0 where "s0 = at_loop_entry [] s"
  have entry: "\<And>x. at_loop_entry x s = s0\<lparr>transmission_infos := x\<rparr>"
    by (simp add: s0_def at_loop_entry_def)
  have same: "pair_loop ext nh model (declared_pairs (recognised_only trs)) s0 =
              pair_loop ext nh model ?ps s0"
    by (simp only: declared_pairs_recognised_only pair_loop_filter)
  obtain b s1 where run: "pair_loop ext nh model ?ps s0 = (b, s1)"
    by (cases "pair_loop ext nh model ?ps s0")
  have r1: "initSim ext nh model trs s =
              (if b then (True, init_sensors ext nh model (s1\<lparr>transmission_infos := trs\<rparr>))
               else (False, s1\<lparr>transmission_infos := trs\<rparr>))"
    by (simp add: initSim_pairs entry pair_loop_transmission_infos run)
  have r2: "initSim ext nh model (recognised_only trs) s =
              (if b then (True, init_sensors ext nh model
                                  (s1\<lparr>transmission_infos := recognised_only trs\<rparr>))
               else (False, s1\<lparr>transmission_infos := recognised_only trs\<rparr>))"
    by (simp add: initSim_pairs entry pair_loop_transmission_infos same run)
  show ?thesis
    by (cases b) (simp_all add: r1 r2 init_sensors_fields add_resource_unrecognised)
qed

lemmas eval_init =
  initSim_def Let_def joint_with_def add_resource_def new_resource_def ref_resources_def
  ref_init_def constructed_def registerInterface_def example_gazebo_def init_sensors_fields
  res_key_def

theorem unrecognised_interface_is_skipped_witness:
  "new_resource ''hardware_interface/ImuSensorInterface'' = None \<and>
   add_resource ref_resources example_nh example_gazebo ''j1''
     ''hardware_interface/ImuSensorInterface'' (constructed :: (int, int joint_buffers) PalHardwareGazebo)
     = (True, constructed) \<and>
   fst (initSim ref_resources example_nh example_gazebo
         [joint_with ''j1'' [''hardware_interface/ImuSensorInterface'',
                             ''hardware_interface/PositionJointInterface'']]
         (constructed :: (int, int joint_buffers) PalHardwareGazebo)) = True \<and>
   map res_key (rw_resources (snd (initSim ref_resources example_nh example_gazebo
         [joint_with ''j1'' [''hardware_interface/ImuSensorInterface'',
                             ''hardware_interface/PositionJointInterface'']]
         (constructed :: (int, int joint_buffers) PalHardwareGazebo)))) = [(''j1'', PositionJoint)]"
proof -
  let ?trs = "[joint_with ''j1'' [''hardware_interface/ImuSensorInterface'',
                                  ''hardware_interface/PositionJointInterface'']]"
  let ?c = "constructed :: (int, int joint_buffers) PalHardwareGazebo"
  note T = unrecognised_interface_is_skipped
             [of "''hardware_interface/ImuSensorInterface''" ref_resources example_nh
                 example_gazebo "''j1''" ?c ?trs]
  have n: "new_resource ''hardware_interface/ImuSensorInterface'' = None"
    by (simp add: new_resource_def)
  have r: "recognised_only ?trs = [joint_with ''j1'' [''hardware_interface/PositionJointInterface'']]"
    by (simp add: recognised_only_def joint_with_def new_resource_def)
  have e1: "fst (initSim ref_resources example_nh example_gazebo
                   [joint_with ''j1'' [''hardware_interface/PositionJointInterface'']] ?c) = True"
    by (simp add: eval_init)
  have e2: "map res_key (rw_resources (snd (initSim ref_resources example_nh example_gazebo
                   [joint_with ''j1'' [''hardware_interface/PositionJointInterface'']] ?c))) =
            [(''j1'', PositionJoint)]"
    by (simp add: eval_init)
  from T n have a: "add_resource ref_resources example_nh example_gazebo ''j1''
                      ''hardware_interface/ImuSensorInterface'' ?c = (True, ?c)"
    by blast
  from T have b: "fst (initSim ref_resources example_nh example_gazebo ?trs ?c) =
                  fst (initSim ref_resources example_nh example_gazebo (recognised_only ?trs) ?c)"
    by blast
  from T have c: "rw_resources (snd (initSim ref_resources example_nh example_gazebo ?trs ?c)) =
                  rw_resources (snd (initSim ref_resources example_nh example_gazebo
                                       (recognised_only ?trs) ?c))"
    by blast
  show ?thesis
    using n a b c by (simp only: r e1 e2 simp_thms)
qed

lemma add_resource_fatal:
  assumes "new_resource t = Some v"
      and "res_init ext v n nh model (hw s) = Inl e"
      and "e \<noteq> ExistingResourceException"
  shows "add_resource ext nh model n t s = (False, s)"
  using assms by (cases e) (simp_all add: add_resource_def)

lemma add_resource_existing:
  assumes "new_resource t = Some v"
      and "res_init ext v n nh model (hw s) = Inl ExistingResourceException"
  shows "add_resource ext nh model n t s = (True, s)"
  using assms by (simp add: add_resource_def)

lemma add_resource_ok:
  assumes "new_resource t = Some v"
      and "res_init ext v n nh model (hw s) = Inr (r, h)"
  shows "add_resource ext nh model n t s = (True, s\<lparr>hw := h, rw_resources := rw_resources s @ [r]\<rparr>)"
  using assms by (simp add: add_resource_def)

text \<open>
  C6. When the \<^verbatim>\<open>init\<close> of a resource fails with anything but the already-exists condition,
  a \<^verbatim>\<open>std::runtime_error\<close> or any other exception, \<open>initSim\<close> returns failure at that pair:
  the pairs before it have been processed, and the object stays as it was when \<^verbatim>\<open>init\<close>
  was called.
\<close>

theorem init_failure_is_fatal:
  assumes "declared_pairs trs = pre @ (n, t) # post"
      and "pair_loop ext nh model pre (at_loop_entry trs s) = (True, s1)"
      and "new_resource t = Some v"
      and "res_init ext v n nh model (hw s1) = Inl e"
      and "e \<noteq> ExistingResourceException"
  shows "initSim ext nh model trs s = (False, s1)"
  using assms
  by (simp add: initSim_pairs pair_loop_append add_resource_fatal[of t v ext n nh model s1 e])

theorem init_failure_is_fatal_witness:
  "declared_pairs [joint_with ''j2'' [''hardware_interface/EffortJointInterface'']] =
     [] @ (''j2'', ''hardware_interface/EffortJointInterface'') # [] \<and>
   new_resource ''hardware_interface/EffortJointInterface'' = Some EffortJoint \<and>
   res_init ref_resources EffortJoint ''j2'' example_nh example_gazebo
     (hw (at_loop_entry [joint_with ''j2'' [''hardware_interface/EffortJointInterface'']]
            (constructed :: (int, int joint_buffers) PalHardwareGazebo)))
     = Inl (RuntimeError ''joint not found'') \<and>
   initSim ref_resources example_nh example_gazebo
     [joint_with ''j2'' [''hardware_interface/EffortJointInterface'']]
     (constructed :: (int, int joint_buffers) PalHardwareGazebo) =
   (False, at_loop_entry [joint_with ''j2'' [''hardware_interface/EffortJointInterface'']] constructed)"
proof -
  let ?trs = "[joint_with ''j2'' [''hardware_interface/EffortJointInterface'']]"
  let ?c = "constructed :: (int, int joint_buffers) PalHardwareGazebo"
  have a: "declared_pairs ?trs = [] @ (''j2'', ''hardware_interface/EffortJointInterface'') # []"
    by (simp add: declared_pairs_def joint_pairs_def joint_with_def)
  have b: "pair_loop ref_resources example_nh example_gazebo [] (at_loop_entry ?trs ?c) =
             (True, at_loop_entry ?trs ?c)"
    by simp
  have c: "new_resource ''hardware_interface/EffortJointInterface'' = Some EffortJoint"
    by (simp add: new_resource_def)
  have d: "res_init ref_resources EffortJoint ''j2'' example_nh example_gazebo
             (hw (at_loop_entry ?trs ?c)) = Inl (RuntimeError ''joint not found'')"
    by (simp add: ref_resources_def ref_init_def at_loop_entry_def constructed_def
          registerInterface_def example_gazebo_def)
  have e: "RuntimeError ''joint not found'' \<noteq> ExistingResourceException"
    by simp
  from init_failure_is_fatal[OF a b c d e] a c d show ?thesis
    by blast
qed

text \<open>
  C1. The specification's scenario: the force-torque sensor \<open>ft0\<close> is attached to the joint
  \<open>j1\<close> and the model has no joint. \<open>parseForceTorqueSensors\<close> returns failure, and
  \<open>initSim\<close>, which does not look at that result (line 214), returns success.
\<close>

theorem ft_failure_not_reported_by_initSim:
  "fetchParam example_nh ''force_torque'' ''ft0'' ''sensor_joint'' = ''j1'' \<and>
   GetJoint (example_gazebo\<lparr>GetJoint := \<lambda>n. None\<rparr>) ''j1'' = None \<and>
   fst (parseForceTorqueSensors example_nh (example_gazebo\<lparr>GetJoint := \<lambda>n. None\<rparr>)
          (constructed :: (int, int joint_buffers) PalHardwareGazebo)) = False \<and>
   fst (initSim ref_resources example_nh (example_gazebo\<lparr>GetJoint := \<lambda>n. None\<rparr>) []
          (constructed :: (int, int joint_buffers) PalHardwareGazebo)) = True"
  by (simp add: parseForceTorqueSensors_def example_nh_def initSim_def)

text \<open>
  C2. The parameters declare the inertial sensors \<open>imu0\<close> and \<open>imu1\<close> and the simulator has
  the sensor \<open>imu_sensor\<close>: \<open>parseIMUSensors\<close> would build two definitions. \<open>initSim\<close> does
  not call it: it returns success with no inertial definition and no inertial handle.
\<close>

theorem initSim_builds_no_imu_definition:
  "getIds example_nh ''imu'' = [''imu0'', ''imu1''] \<and>
   map sensorName (imuSensorDefinitions (snd (parseIMUSensors example_nh example_gazebo
      (constructed :: (int, int joint_buffers) PalHardwareGazebo)))) = [''imu0'', ''imu1''] \<and>
   fst (initSim ref_resources example_nh example_gazebo []
          (constructed :: (int, int joint_buffers) PalHardwareGazebo)) = True \<and>
   imuSensorDefinitions (snd (initSim ref_resources example_nh example_gazebo []
          (constructed :: (int, int joint_buffers) PalHardwareGazebo))) = [] \<and>
   imu_sensor_interface (snd (initSim ref_resources example_nh example_gazebo []
          (constructed :: (int, int joint_buffers) PalHardwareGazebo))) = []"
  by (simp add: parseIMUSensors_def imu_loop_eq example_nh_def example_gazebo_def
        new_imu_definition_def initSim_def init_sensors_fields constructed_def imu_handles_nil)

lemma pair_loop_sensor_fields:
  "forceTorqueSensorDefinitions (snd (pair_loop ext nh model ps s)) = forceTorqueSensorDefinitions s"
  "imuSensorDefinitions (snd (pair_loop ext nh model ps s)) = imuSensorDefinitions s"
  "ft_sensor_interface (snd (pair_loop ext nh model ps s)) = ft_sensor_interface s"
  "imu_sensor_interface (snd (pair_loop ext nh model ps s)) = imu_sensor_interface s"
  "active_w_resources_rt (snd (pair_loop ext nh model ps s)) = active_w_resources_rt s"
  "e_stop_active (snd (pair_loop ext nh model ps s)) = e_stop_active s"
proof -
  obtain h rs where "snd (pair_loop ext nh model ps s) = s\<lparr>hw := h, rw_resources := rs\<rparr>"
    using pair_loop_shape by blast
  then show
    "forceTorqueSensorDefinitions (snd (pair_loop ext nh model ps s)) = forceTorqueSensorDefinitions s"
    "imuSensorDefinitions (snd (pair_loop ext nh model ps s)) = imuSensorDefinitions s"
    "ft_sensor_interface (snd (pair_loop ext nh model ps s)) = ft_sensor_interface s"
    "imu_sensor_interface (snd (pair_loop ext nh model ps s)) = imu_sensor_interface s"
    "active_w_resources_rt (snd (pair_loop ext nh model ps s)) = active_w_resources_rt s"
    "e_stop_active (snd (pair_loop ext nh model ps s)) = e_stop_active s"
    by simp_all
qed

lemma at_loop_entry_fields:
  "rw_resources (at_loop_entry trs s) = rw_resources s"
  "forceTorqueSensorDefinitions (at_loop_entry trs s) = forceTorqueSensorDefinitions s"
  "imuSensorDefinitions (at_loop_entry trs s) = imuSensorDefinitions s"
  "ft_sensor_interface (at_loop_entry trs s) = ft_sensor_interface s"
  "imu_sensor_interface (at_loop_entry trs s) = imu_sensor_interface s"
  "active_w_resources_rt (at_loop_entry trs s) = active_w_resources_rt s"
  "e_stop_active (at_loop_entry trs s) = e_stop_active s"
  "handle_names (hw (at_loop_entry trs s)) v = handle_names (hw s) v"
  by (cases v; simp add: at_loop_entry_def registerInterface_def)+

text \<open>
  C10. The force-torque sensors \<open>pre\<close> resolve and the next declared sensor \<open>bad\<close> does not.
  \<open>parseForceTorqueSensors\<close> returns failure, and it has appended one definition for each
  sensor of \<open>pre\<close>, in order, and none for \<open>bad\<close> or the sensors after it. When \<open>initSim\<close>
  is run on an object without force-torque definitions and its resource loops succeed, it
  ends with exactly these definitions and with a handle for each of them in the force-torque
  interface, pointing at the buffers of that definition.
\<close>

theorem ft_parse_failure_keeps_earlier_definitions:
  assumes ids: "getIds nh ''force_torque'' = pre @ bad # post"
      and ok: "\<forall>sensor_name \<in> set pre.
                 GetJoint model (fetchParam nh ''force_torque'' sensor_name ''sensor_joint'') \<noteq> None"
      and bad: "GetJoint model (fetchParam nh ''force_torque'' bad ''sensor_joint'') = None"
      and dist: "distinct pre"
  shows "fst (parseForceTorqueSensors nh model s) = False \<and>
         (\<exists>fts. forceTorqueSensorDefinitions (snd (parseForceTorqueSensors nh model s)) =
                  forceTorqueSensorDefinitions s @ fts \<and> map sensorName fts = pre) \<and>
         (forceTorqueSensorDefinitions s = [] \<and> fst (initSim ext nh model trs s) \<longrightarrow>
            map sensorName (forceTorqueSensorDefinitions (snd (initSim ext nh model trs s))) = pre \<and>
            (\<forall>i < length pre.
               map_of (ft_sensor_interface (snd (initSim ext nh model trs s))) (pre ! i) =
                 Some \<lparr>h_name = pre ! i,
                       h_frame_id = fetchParam nh ''force_torque'' (pre ! i) ''frame'',
                       h_force = ForceOf i, h_torque = TorqueOf i\<rparr>))"
proof -
  let ?fts = "ft_parsed nh model pre :: 'a ForceTorqueSensorDefinition list"
  have parsed: "ft_parsed nh model (getIds nh ''force_torque'') = ?fts"
    using ids ft_parsed_prefix[OF ok bad] by simp
  have names: "map sensorName ?fts = pre"
    using ft_parsed_names[OF ok] .
  have len: "length ?fts = length pre"
    using names by (metis length_map)
  have p1: "fst (parseForceTorqueSensors nh model s) = False"
    using ids bad by (simp add: parseForceTorqueSensors_def ft_loop_eq)
  have p2: "forceTorqueSensorDefinitions (snd (parseForceTorqueSensors nh model s)) =
              forceTorqueSensorDefinitions s @ ?fts"
    using parsed by (simp add: parseForceTorqueSensors_def ft_loop_eq)
  have p3: "map sensorName (forceTorqueSensorDefinitions (snd (initSim ext nh model trs s))) = pre \<and>
            (\<forall>i < length pre.
               map_of (ft_sensor_interface (snd (initSim ext nh model trs s))) (pre ! i) =
                 Some \<lparr>h_name = pre ! i,
                       h_frame_id = fetchParam nh ''force_torque'' (pre ! i) ''frame'',
                       h_force = ForceOf i, h_torque = TorqueOf i\<rparr>)"
    if fresh: "forceTorqueSensorDefinitions s = []" and succ: "fst (initSim ext nh model trs s)"
  proof -
    obtain b s1 where run: "pair_loop ext nh model (declared_pairs trs) (at_loop_entry trs s) = (b, s1)"
      by (cases "pair_loop ext nh model (declared_pairs trs) (at_loop_entry trs s)")
    have b: "b" using succ run by (cases b) (simp_all add: initSim_pairs)
    have s1: "s1 = snd (pair_loop ext nh model (declared_pairs trs) (at_loop_entry trs s))"
      using run by simp
    have d1: "forceTorqueSensorDefinitions s1 = []"
      using fresh by (simp add: s1 pair_loop_sensor_fields at_loop_entry_fields)
    have res: "snd (initSim ext nh model trs s) = init_sensors ext nh model s1"
      using run b by (simp add: initSim_pairs)
    have defs: "forceTorqueSensorDefinitions (snd (initSim ext nh model trs s)) = ?fts"
      by (simp add: res init_sensors_fields d1 parsed)
    have regs: "ft_sensor_interface (snd (initSim ext nh model trs s)) =
                  ft_handles ?fts (ft_sensor_interface s1)"
      by (simp add: res init_sensors_fields d1 parsed)
    have "map_of (ft_sensor_interface (snd (initSim ext nh model trs s))) (pre ! i) =
            Some \<lparr>h_name = pre ! i,
                  h_frame_id = fetchParam nh ''force_torque'' (pre ! i) ''frame'',
                  h_force = ForceOf i, h_torque = TorqueOf i\<rparr>" if i: "i < length pre" for i
    proof -
      have il: "i < length ?fts" using i len by simp
      have nm: "sensorName (?fts ! i) = pre ! i"
        using names il by (metis nth_map)
      have "?fts ! i \<in> set ?fts" using il by simp
      then have fr: "sensorFrame (?fts ! i) = fetchParam nh ''force_torque'' (pre ! i) ''frame''"
        using ft_parsed_frames[of "?fts ! i" nh model pre] nm by simp
      have "map_of (ft_handles ?fts (ft_sensor_interface s1)) (sensorName (?fts ! i)) =
              Some (ft_handle i (?fts ! i))"
        using dist names il by (intro ft_handles_lookup) simp_all
      then show ?thesis
        by (simp add: regs nm fr ft_handle_def)
    qed
    then show ?thesis using defs names by simp
  qed
  show ?thesis
    using p1 p2 names p3 by blast
qed

theorem ft_parse_failure_keeps_earlier_definitions_witness:
  "getIds example_nh ''force_torque'' = [''ft0''] @ ''ft1'' # [] \<and>
   fst (parseForceTorqueSensors example_nh example_gazebo
          (constructed :: (int, int joint_buffers) PalHardwareGazebo)) = False \<and>
   fst (initSim ref_resources example_nh example_gazebo []
         (constructed :: (int, int joint_buffers) PalHardwareGazebo)) \<and>
   map sensorName (forceTorqueSensorDefinitions (snd (initSim ref_resources example_nh example_gazebo []
         (constructed :: (int, int joint_buffers) PalHardwareGazebo)))) = [''ft0''] \<and>
   map_of (ft_sensor_interface (snd (initSim ref_resources example_nh example_gazebo []
         (constructed :: (int, int joint_buffers) PalHardwareGazebo)))) ''ft0'' =
     Some \<lparr>h_name = ''ft0'', h_frame_id = ''ft0_link'', h_force = ForceOf 0, h_torque = TorqueOf 0\<rparr>"
proof -
  let ?c = "constructed :: (int, int joint_buffers) PalHardwareGazebo"
  have a: "getIds example_nh ''force_torque'' = [''ft0''] @ ''ft1'' # []"
    by (simp add: example_nh_def)
  have b: "\<forall>sensor_name \<in> set [''ft0''].
             GetJoint example_gazebo (fetchParam example_nh ''force_torque'' sensor_name ''sensor_joint'')
               \<noteq> None"
    by (simp add: example_nh_def example_gazebo_def)
  have c: "GetJoint example_gazebo (fetchParam example_nh ''force_torque'' ''ft1'' ''sensor_joint'') = None"
    by (simp add: example_nh_def example_gazebo_def)
  have d: "distinct [''ft0'']" by simp
  have e: "forceTorqueSensorDefinitions ?c = []" by (simp add: constructed_def)
  have f: "fst (initSim ref_resources example_nh example_gazebo [] ?c)"
    by (simp add: initSim_def)
  have g: "fetchParam example_nh ''force_torque'' ''ft0'' ''frame'' = ''ft0_link''"
    by (simp add: example_nh_def)
  note T = ft_parse_failure_keeps_earlier_definitions
             [OF a b c d, of ?c ref_resources "[]"]
  from T have p: "fst (parseForceTorqueSensors example_nh example_gazebo ?c) = False"
    by blast
  from T e f have q:
    "map sensorName (forceTorqueSensorDefinitions
        (snd (initSim ref_resources example_nh example_gazebo [] ?c))) = [''ft0'']"
    by blast
  from T e f have "\<forall>i < length [''ft0''].
       map_of (ft_sensor_interface (snd (initSim ref_resources example_nh example_gazebo [] ?c)))
         ([''ft0''] ! i) =
       Some \<lparr>h_name = [''ft0''] ! i,
             h_frame_id = fetchParam example_nh ''force_torque'' ([''ft0''] ! i) ''frame'',
             h_force = ForceOf i, h_torque = TorqueOf i\<rparr>"
    by blast
  then have r: "map_of (ft_sensor_interface (snd (initSim ref_resources example_nh example_gazebo [] ?c)))
         ''ft0'' =
       Some \<lparr>h_name = ''ft0'', h_frame_id = ''ft0_link'', h_force = ForceOf 0, h_torque = TorqueOf 0\<rparr>"
    using g by simp
  show ?thesis using a p f q r by blast
qed

subsection \<open>The read and write cycle\<close>

text \<open>A loop that updates every position of a list once is a \<open>map\<close>.\<close>

lemma foldl_update_upt:
  "n \<le> length xs \<Longrightarrow>
     foldl (\<lambda>ys i. ys[i := f (ys ! i)]) xs [0 ..< n] = map f (take n xs) @ drop n xs"
proof (induction n)
  case 0
  then show ?case by simp
next
  case (Suc n)
  then have n: "n < length xs" by simp
  have "foldl (\<lambda>ys i. ys[i := f (ys ! i)]) xs [0 ..< Suc n] =
          (map f (take n xs) @ drop n xs)[n := f ((map f (take n xs) @ drop n xs) ! n)]"
    using Suc by simp
  also have "\<dots> = map f (take n xs) @ (drop n xs)[0 := f (xs ! n)]"
    using n by (simp add: list_update_append nth_append)
  also have "(drop n xs)[0 := f (xs ! n)] = f (xs ! n) # drop (Suc n) xs"
    using n by (simp add: Cons_nth_drop_Suc[symmetric])
  also have "map f (take n xs) @ f (xs ! n) # drop (Suc n) xs =
               map f (take (Suc n) xs) @ drop (Suc n) xs"
    using n by (simp add: take_Suc_conv_app_nth)
  finally show ?case .
qed

lemma foldl_update_all:
  "foldl (\<lambda>ys i. ys[i := f (ys ! i)]) xs [0 ..< length xs] = map f xs"
  using foldl_update_upt[of "length xs" xs f] by simp

lemma read_resources_fold:
  "foldl (\<lambda>s i. s\<lparr>rw_resources := (rw_resources s)
                    [i := res_read ext time period (e_stop_active s) g (rw_resources s ! i)]\<rparr>) s ixs =
   s\<lparr>rw_resources :=
       foldl (\<lambda>ys i. ys[i := res_read ext time period (e_stop_active s) g (ys ! i)])
         (rw_resources s) ixs\<rparr>"
  by (induction ixs arbitrary: s) simp_all

lemma read_resources_eq:
  "read_resources ext time period g s =
     s\<lparr>rw_resources := map (res_read ext time period (e_stop_active s) g) (rw_resources s)\<rparr>"
  by (simp add: read_resources_def read_resources_fold foldl_update_all)

lemma read_ft_fold:
  "foldl (\<lambda>s i. s\<lparr>forceTorqueSensorDefinitions := (forceTorqueSensorDefinitions s)
                    [i := sample_ft g (forceTorqueSensorDefinitions s ! i)]\<rparr>) s ixs =
   s\<lparr>forceTorqueSensorDefinitions :=
       foldl (\<lambda>ys i. ys[i := sample_ft g (ys ! i)]) (forceTorqueSensorDefinitions s) ixs\<rparr>"
  by (induction ixs arbitrary: s) simp_all

lemma read_ft_sensors_eq:
  "read_ft_sensors g s =
     s\<lparr>forceTorqueSensorDefinitions := map (sample_ft g) (forceTorqueSensorDefinitions s)\<rparr>"
  by (simp add: read_ft_sensors_def read_ft_fold foldl_update_all)

lemma read_imu_fold:
  "foldl (\<lambda>s i. s\<lparr>imuSensorDefinitions := (imuSensorDefinitions s)
                    [i := sample_imu g (imuSensorDefinitions s ! i)]\<rparr>) s ixs =
   s\<lparr>imuSensorDefinitions :=
       foldl (\<lambda>ys i. ys[i := sample_imu g (ys ! i)]) (imuSensorDefinitions s) ixs\<rparr>"
  by (induction ixs arbitrary: s) simp_all

lemma read_imu_sensors_eq:
  "read_imu_sensors g s =
     s\<lparr>imuSensorDefinitions := map (sample_imu g) (imuSensorDefinitions s)\<rparr>"
  by (simp add: read_imu_sensors_def read_imu_fold foldl_update_all)

lemma readSim_eq:
  "readSim ext time period g s =
     s\<lparr>rw_resources := map (res_read ext time period (e_stop_active s) g) (rw_resources s),
       forceTorqueSensorDefinitions := map (sample_ft g) (forceTorqueSensorDefinitions s),
       imuSensorDefinitions := map (sample_imu g) (imuSensorDefinitions s)\<rparr>"
  by (simp add: readSim_def read_resources_eq read_ft_sensors_eq read_imu_sensors_eq)

text \<open>\<open>writeSim\<close> changes no member of the object but \<open>rw_resources\<close>.\<close>

lemma write_resource_shape:
  "\<exists>rs. fst (write_resource ext time period (s, g) i) = s\<lparr>rw_resources := rs\<rparr> \<and>
        length rs = length (rw_resources s)"
proof (cases "i < length (rw_resources s)")
  case True
  obtain r g' where w: "res_write ext time period (e_stop_active s) (rw_resources s ! i) g = (r, g')"
    by (cases "res_write ext time period (e_stop_active s) (rw_resources s ! i) g")
  have "fst (write_resource ext time period (s, g) i) = s\<lparr>rw_resources := (rw_resources s)[i := r]\<rparr>"
    using True w by (simp add: write_resource_def)
  then show ?thesis by (intro exI[of _ "(rw_resources s)[i := r]"]) simp
next
  case False
  then have "fst (write_resource ext time period (s, g) i) = s"
    by (simp add: write_resource_def)
  then show ?thesis by (intro exI[of _ "rw_resources s"]) simp
qed

lemma write_fold_shape:
  "\<exists>rs. fst (foldl (write_resource ext time period) (s, g) ixs) = s\<lparr>rw_resources := rs\<rparr> \<and>
        length rs = length (rw_resources s)"
proof (induction ixs arbitrary: s g)
  case Nil
  show ?case by (intro exI[of _ "rw_resources s"]) simp
next
  case (Cons i ixs)
  obtain s1 g1 where step: "write_resource ext time period (s, g) i = (s1, g1)"
    by (cases "write_resource ext time period (s, g) i")
  obtain rs1 where s1: "s1 = s\<lparr>rw_resources := rs1\<rparr>" "length rs1 = length (rw_resources s)"
    using write_resource_shape[of ext time period s g i] step by auto
  obtain rs2 where "fst (foldl (write_resource ext time period) (s1, g1) ixs) = s1\<lparr>rw_resources := rs2\<rparr>"
      "length rs2 = length (rw_resources s1)"
    using Cons.IH[of s1 g1] by auto
  then have "fst (foldl (write_resource ext time period) (s, g) (i # ixs)) = s\<lparr>rw_resources := rs2\<rparr> \<and>
        length rs2 = length (rw_resources s)"
    using step s1 by simp
  then show ?case by blast
qed

lemma writeSim_shape:
  "\<exists>rs. fst (writeSim ext time period (s, g)) = s\<lparr>rw_resources := rs\<rparr> \<and>
        length rs = length (rw_resources s)"
  unfolding writeSim_def using write_fold_shape[of ext time period s g "active_w_resources_rt s"]
  by simp

text \<open>
  Every definition that \<open>parseIMUSensors\<close> builds is bound to the one sensor \<open>imu_sensor\<close>,
  so after \<open>readSim\<close> any two of them hold the same values.
\<close>

lemma imu_parsed_sensor:
  "imu \<in> set (imu_parsed nh model ids) \<Longrightarrow>
     GetSensor model ''imu_sensor'' = Some (gazebo_imu_sensor imu)"
  by (induction ids) (auto simp: new_imu_definition_def split: option.splits)

lemma imu_parsed_names:
  "GetSensor model ''imu_sensor'' \<noteq> None \<Longrightarrow> map sensorName (imu_parsed nh model ids) = ids"
  by (induction ids) (auto simp: new_imu_definition_def split: option.splits)

lemma parsed_imu_definitions_read_alike:
  assumes fresh: "imuSensorDefinitions s = []"
      and a: "a \<in> set (imuSensorDefinitions
                (readSim ext time period g (snd (parseIMUSensors nh model s))))"
      and b: "b \<in> set (imuSensorDefinitions
                (readSim ext time period g (snd (parseIMUSensors nh model s))))"
  shows "gazebo_imu_sensor a = gazebo_imu_sensor b \<and> orientation a = orientation b \<and>
         base_ang_vel a = base_ang_vel b \<and> linear_acceleration a = linear_acceleration b"
proof -
  have defs: "imuSensorDefinitions (readSim ext time period g (snd (parseIMUSensors nh model s))) =
                map (sample_imu g) (imu_parsed nh model (getIds nh ''imu''))"
    using fresh by (simp add: readSim_eq parseIMUSensors_def imu_loop_eq)
  obtain a0 where a0: "a0 \<in> set (imu_parsed nh model (getIds nh ''imu''))" "a = sample_imu g a0"
    using a defs by auto
  obtain b0 where b0: "b0 \<in> set (imu_parsed nh model (getIds nh ''imu''))" "b = sample_imu g b0"
    using b defs by auto
  have "gazebo_imu_sensor a0 = gazebo_imu_sensor b0"
    using imu_parsed_sensor[OF a0(1)] imu_parsed_sensor[OF b0(1)] by simp
  then show ?thesis
    using a0(2) b0(2) by (simp add: sample_imu_def Let_def)
qed

lemma initSim_sensor_definitions:
  "imuSensorDefinitions (snd (initSim ext nh model trs s)) = imuSensorDefinitions s"
  "take (length (forceTorqueSensorDefinitions s))
     (forceTorqueSensorDefinitions (snd (initSim ext nh model trs s))) =
   forceTorqueSensorDefinitions s"
proof -
  obtain b s1 where run: "pair_loop ext nh model (declared_pairs trs) (at_loop_entry trs s) = (b, s1)"
    by (cases "pair_loop ext nh model (declared_pairs trs) (at_loop_entry trs s)")
  have s1: "s1 = snd (pair_loop ext nh model (declared_pairs trs) (at_loop_entry trs s))"
    using run by simp
  have i: "imuSensorDefinitions s1 = imuSensorDefinitions s"
    by (simp add: s1 pair_loop_sensor_fields at_loop_entry_fields)
  have f: "forceTorqueSensorDefinitions s1 = forceTorqueSensorDefinitions s"
    by (simp add: s1 pair_loop_sensor_fields at_loop_entry_fields)
  show "imuSensorDefinitions (snd (initSim ext nh model trs s)) = imuSensorDefinitions s"
    using run i by (cases b) (simp_all add: initSim_pairs init_sensors_fields)
  show "take (length (forceTorqueSensorDefinitions s))
     (forceTorqueSensorDefinitions (snd (initSim ext nh model trs s))) =
   forceTorqueSensorDefinitions s"
    using run f by (cases b) (simp_all add: initSim_pairs init_sensors_fields)
qed

text \<open>
  C8. One call of \<open>readSim\<close> replaces every resource by the result of one \<^verbatim>\<open>read\<close> on it,
  every force-torque definition by the definition with the force and torque that its joint
  reports, and every inertial definition by the definition with the orientation, angular
  velocity and linear acceleration that its sensor reports; it changes nothing else.
  \<open>writeSim\<close> leaves the two lists of sensor definitions as they are, and so does \<open>initSim\<close>
  with the definitions that the object holds when it is called.
\<close>

theorem readSim_refreshes_everything_once:
  "rw_resources (readSim ext time period g s) =
     map (res_read ext time period (e_stop_active s) g) (rw_resources s) \<and>
   forceTorqueSensorDefinitions (readSim ext time period g s) =
     map (\<lambda>ft. ft\<lparr>force := body2Force (GetForceTorque g (gazebo_joint ft)),
                   torque := body2Torque (GetForceTorque g (gazebo_joint ft))\<rparr>)
       (forceTorqueSensorDefinitions s) \<and>
   imuSensorDefinitions (readSim ext time period g s) =
     map (\<lambda>imu. imu\<lparr>orientation := GetOrientation g (gazebo_imu_sensor imu),
                     base_ang_vel := GetAngularVelocity g (gazebo_imu_sensor imu),
                     linear_acceleration := GetLinearAcceleration g (gazebo_imu_sensor imu)\<rparr>)
       (imuSensorDefinitions s) \<and>
   forceTorqueSensorDefinitions (fst (writeSim ext time period (s, g))) =
     forceTorqueSensorDefinitions s \<and>
   imuSensorDefinitions (fst (writeSim ext time period (s, g))) = imuSensorDefinitions s \<and>
   imuSensorDefinitions (snd (initSim ext nh model trs s)) = imuSensorDefinitions s \<and>
   take (length (forceTorqueSensorDefinitions s))
     (forceTorqueSensorDefinitions (snd (initSim ext nh model trs s))) =
     forceTorqueSensorDefinitions s"
proof -
  obtain rs where "fst (writeSim ext time period (s, g)) = s\<lparr>rw_resources := rs\<rparr>"
    using writeSim_shape by blast
  then show ?thesis
    by (simp add: readSim_eq sample_ft_def sample_imu_def Let_def initSim_sensor_definitions)
qed

lemma write_frame_key:
  "write_frame wr target \<Longrightarrow> res_key (fst (wr time period e r g)) = res_key r"
  unfolding write_frame_def by blast

lemma write_frame_target:
  "write_frame wr target \<Longrightarrow> k \<noteq> res_key r \<Longrightarrow>
     target k (snd (wr time period e r g)) = target k g"
  unfolding write_frame_def by blast

lemma write_resource_in_range:
  assumes "i < length (rw_resources s)"
  shows "write_resource ext time period (s, g) i =
           (s\<lparr>rw_resources := (rw_resources s)
                [i := fst (res_write ext time period (e_stop_active s) (rw_resources s ! i) g)]\<rparr>,
            snd (res_write ext time period (e_stop_active s) (rw_resources s ! i) g))"
  using assms by (simp add: write_resource_def split: prod.splits)

lemma write_resource_out_of_range:
  "\<not> i < length (rw_resources s) \<Longrightarrow> write_resource ext time period (s, g) i = (s, g)"
  by (simp add: write_resource_def)

lemma write_resource_keys:
  assumes "write_frame (res_write ext) target"
  shows "map res_key (rw_resources (fst (write_resource ext time period (s, g) i))) =
           map res_key (rw_resources s)"
proof (cases "i < length (rw_resources s)")
  case True
  have "res_key (fst (res_write ext time period (e_stop_active s) (rw_resources s ! i) g)) =
          res_key (rw_resources s ! i)"
    using assms by (rule write_frame_key)
  then have "(map res_key (rw_resources s))
               [i := res_key (fst (res_write ext time period (e_stop_active s) (rw_resources s ! i) g))] =
             map res_key (rw_resources s)"
    using True by (simp add: list_update_same_conv)
  then show ?thesis
    using True by (simp add: write_resource_in_range map_update)
next
  case False
  then show ?thesis by (simp add: write_resource_out_of_range)
qed

lemma write_resource_flags:
  "e_stop_active (fst (write_resource ext time period (s, g) i)) = e_stop_active s"
  "active_w_resources_rt (fst (write_resource ext time period (s, g) i)) = active_w_resources_rt s"
  "length (rw_resources (fst (write_resource ext time period (s, g) i))) = length (rw_resources s)"
  using write_resource_shape[of ext time period s g i] by auto

lemma write_fold_flags:
  "e_stop_active (fst (foldl (write_resource ext time period) (s, g) ixs)) = e_stop_active s"
  "active_w_resources_rt (fst (foldl (write_resource ext time period) (s, g) ixs)) =
     active_w_resources_rt s"
  "length (rw_resources (fst (foldl (write_resource ext time period) (s, g) ixs))) =
     length (rw_resources s)"
  using write_fold_shape[of ext time period s g ixs] by auto

lemma write_fold_keys:
  assumes "write_frame (res_write ext) target"
  shows "map res_key (rw_resources (fst (foldl (write_resource ext time period) (s, g) ixs))) =
           map res_key (rw_resources s)"
proof (induction ixs arbitrary: s g)
  case Nil
  show ?case by simp
next
  case (Cons i ixs)
  obtain s1 g1 where step: "write_resource ext time period (s, g) i = (s1, g1)"
    by (cases "write_resource ext time period (s, g) i")
  have "map res_key (rw_resources s1) = map res_key (rw_resources s)"
    using write_resource_keys[OF assms, of time period s g i] step by simp
  then show ?case using Cons.IH[of s1 g1] step by simp
qed

text \<open>A resource that no entry of the list points to is not touched by the loop.\<close>

lemma write_fold_untouched:
  assumes "j \<notin> set ixs"
  shows "rw_resources (fst (foldl (write_resource ext time period) (s, g) ixs)) ! j =
           rw_resources s ! j"
  using assms
proof (induction ixs arbitrary: s g)
  case Nil
  show ?case by simp
next
  case (Cons i ixs)
  obtain s1 g1 where step: "write_resource ext time period (s, g) i = (s1, g1)"
    by (cases "write_resource ext time period (s, g) i")
  have ij: "i \<noteq> j" and rest: "j \<notin> set ixs" using Cons.prems by auto
  have "rw_resources s1 ! j = rw_resources s ! j"
  proof (cases "i < length (rw_resources s)")
    case True
    then show ?thesis using step ij by (auto simp: write_resource_in_range)
  next
    case False
    then show ?thesis using step by (simp add: write_resource_out_of_range)
  qed
  then show ?case using Cons.IH[OF rest, of s1 g1] step by simp
qed

text \<open>
  A command target is left alone by the loop when no entry points to a resource of that joint
  and class.
\<close>

lemma write_fold_target:
  assumes frame: "write_frame (res_write ext) target"
      and others: "\<forall>i \<in> set ixs. i < length (rw_resources s) \<longrightarrow> res_key (rw_resources s ! i) \<noteq> k"
  shows "target k (snd (foldl (write_resource ext time period) (s, g) ixs)) = target k g"
  using others
proof (induction ixs arbitrary: s g)
  case Nil
  show ?case by simp
next
  case (Cons i ixs)
  obtain s1 g1 where step: "write_resource ext time period (s, g) i = (s1, g1)"
    by (cases "write_resource ext time period (s, g) i")
  have keys: "map res_key (rw_resources s1) = map res_key (rw_resources s)"
    using write_resource_keys[OF frame, of time period s g i] step by simp
  have len: "length (rw_resources s1) = length (rw_resources s)"
    using keys by (metis length_map)
  have key_at: "res_key (rw_resources s1 ! m) = res_key (rw_resources s ! m)"
    if "m < length (rw_resources s)" for m
    using keys that len by (metis nth_map)
  have g1: "target k g1 = target k g"
  proof (cases "i < length (rw_resources s)")
    case True
    then have "res_key (rw_resources s ! i) \<noteq> k" using Cons.prems by simp
    then have "target k (snd (res_write ext time period (e_stop_active s) (rw_resources s ! i) g)) =
                 target k g"
      using write_frame_target[OF frame] by metis
    then show ?thesis
      using True step by (simp add: write_resource_in_range)
  next
    case False
    then show ?thesis using step by (simp add: write_resource_out_of_range)
  qed
  have "\<forall>m \<in> set ixs. m < length (rw_resources s1) \<longrightarrow> res_key (rw_resources s1 ! m) \<noteq> k"
    using Cons.prems key_at len by simp
  then have "target k (snd (foldl (write_resource ext time period) (s1, g1) ixs)) = target k g1"
    by (rule Cons.IH)
  then show ?case using step g1 by simp
qed

text \<open>
  The loop does not depend on what \<^verbatim>\<open>write\<close> does on resources of a joint and class that no
  entry points to.
\<close>

lemma write_fold_independent:
  assumes frame: "write_frame (res_write ext) target"
      and agree: "\<forall>e r g'. res_key r \<noteq> k \<longrightarrow>
                    res_write ext2 time period e r g' = res_write ext time period e r g'"
      and others: "\<forall>i \<in> set ixs. i < length (rw_resources s) \<longrightarrow> res_key (rw_resources s ! i) \<noteq> k"
  shows "foldl (write_resource ext2 time period) (s, g) ixs =
         foldl (write_resource ext time period) (s, g) ixs"
  using others
proof (induction ixs arbitrary: s g)
  case Nil
  show ?case by simp
next
  case (Cons i ixs)
  obtain s1 g1 where step: "write_resource ext time period (s, g) i = (s1, g1)"
    by (cases "write_resource ext time period (s, g) i")
  have keys: "map res_key (rw_resources s1) = map res_key (rw_resources s)"
    using write_resource_keys[OF frame, of time period s g i] step by simp
  have len: "length (rw_resources s1) = length (rw_resources s)"
    using keys by (metis length_map)
  have key_at: "res_key (rw_resources s1 ! m) = res_key (rw_resources s ! m)"
    if "m < length (rw_resources s)" for m
    using keys that len by (metis nth_map)
  have same: "write_resource ext2 time period (s, g) i = write_resource ext time period (s, g) i"
  proof (cases "i < length (rw_resources s)")
    case True
    then have "res_key (rw_resources s ! i) \<noteq> k" using Cons.prems by simp
    then show ?thesis using agree True by (simp add: write_resource_in_range)
  next
    case False
    then show ?thesis by (simp add: write_resource_out_of_range)
  qed
  have "\<forall>m \<in> set ixs. m < length (rw_resources s1) \<longrightarrow> res_key (rw_resources s1 ! m) \<noteq> k"
    using Cons.prems key_at len by simp
  then have "foldl (write_resource ext2 time period) (s1, g1) ixs =
             foldl (write_resource ext time period) (s1, g1) ixs"
    by (rule Cons.IH)
  then show ?case using step same by simp
qed

lemma distinct_keys_others:
  assumes "distinct (map res_key rs)" and "j < length rs" and "j \<notin> set ixs"
  shows "\<forall>i \<in> set ixs. i < length rs \<longrightarrow> res_key (rs ! i) \<noteq> res_key (rs ! j)"
proof (intro ballI impI)
  fix i assume "i \<in> set ixs" and i: "i < length rs"
  then have "i \<noteq> j" using assms(3) by auto
  then show "res_key (rs ! i) \<noteq> res_key (rs ! j)"
    using assms(1,2) i by (auto simp: distinct_conv_nth)
qed

text \<open>
  C7. A resource that no entry of the active-writer set points to, in an object whose resources
  have different joint and class pairs: after \<open>writeSim\<close> the resource, with its command buffer,
  is as before; the command target of its joint and class is as before; and the result of
  \<open>writeSim\<close> is the same whatever its \<^verbatim>\<open>write\<close> would do, that is, \<^verbatim>\<open>write\<close> is
  not called on it.
\<close>

theorem inactive_resource_is_not_written:
  assumes frame: "write_frame (res_write ext) target"
      and j: "j < length (rw_resources s)"
      and inactive: "j \<notin> set (active_w_resources_rt s)"
      and dist: "distinct (map res_key (rw_resources s))"
  shows "rw_resources (fst (writeSim ext time period (s, g))) ! j = rw_resources s ! j \<and>
         target (res_key (rw_resources s ! j)) (snd (writeSim ext time period (s, g))) =
           target (res_key (rw_resources s ! j)) g \<and>
         (\<forall>ext2. (\<forall>e r g'. res_key r \<noteq> res_key (rw_resources s ! j) \<longrightarrow>
                      res_write ext2 time period e r g' = res_write ext time period e r g') \<longrightarrow>
                 writeSim ext2 time period (s, g) = writeSim ext time period (s, g))"
proof -
  note others = distinct_keys_others[OF dist j inactive]
  have a: "rw_resources (fst (writeSim ext time period (s, g))) ! j = rw_resources s ! j"
    using inactive by (simp add: writeSim_def write_fold_untouched)
  have b: "target (res_key (rw_resources s ! j)) (snd (writeSim ext time period (s, g))) =
           target (res_key (rw_resources s ! j)) g"
    using write_fold_target[OF frame others] by (simp add: writeSim_def)
  have c: "writeSim ext2 time period (s, g) = writeSim ext time period (s, g)"
    if "\<forall>e r g'. res_key r \<noteq> res_key (rw_resources s ! j) \<longrightarrow>
                      res_write ext2 time period e r g' = res_write ext time period e r g'" for ext2
    using write_fold_independent[OF frame that others] by (simp add: writeSim_def)
  show ?thesis using a b c by blast
qed

lemma ref_write_frame:
  "write_frame ref_write (\<lambda>k g. command_target (actuators g) k)"
  unfolding write_frame_def by (simp add: ref_write_def)

lemma ref_write_safe:
  "write_safe ref_write (\<lambda>k g. command_target (actuators g) k) (\<lambda>k g. 0)"
  unfolding write_safe_def by (simp add: ref_write_def)

theorem inactive_resource_is_not_written_witness:
  "(1::nat) < length (rw_resources example_object) \<and>
   1 \<notin> set (active_w_resources_rt example_object) \<and>
   distinct (map res_key (rw_resources example_object)) \<and>
   rw_resources (fst (writeSim ref_resources (0, 0) (0, 1) (example_object, example_gazebo))) ! 1 =
     \<lparr>res_name = ''j1'', res_kind = EffortJoint,
      buffers = \<lparr>buf_joint = 1, buf_position = 0, buf_command = 9\<rparr>\<rparr> \<and>
   command_target (actuators (snd (writeSim ref_resources (0, 0) (0, 1)
       (example_object, example_gazebo)))) (''j1'', EffortJoint) = 50"
proof -
  have f: "write_frame (res_write ref_resources) (\<lambda>k g. command_target (actuators g) k)"
    using ref_write_frame by (simp add: ref_resources_def)
  have j: "(1::nat) < length (rw_resources example_object)"
    by (simp add: example_object_def)
  have i: "1 \<notin> set (active_w_resources_rt example_object)"
    by (simp add: example_object_def)
  have d: "distinct (map res_key (rw_resources example_object))"
    by (simp add: example_object_def res_key_def)
  have r: "rw_resources example_object ! 1 =
             \<lparr>res_name = ''j1'', res_kind = EffortJoint,
              buffers = \<lparr>buf_joint = 1, buf_position = 0, buf_command = 9\<rparr>\<rparr>"
    by (simp add: example_object_def)
  have t: "command_target (actuators example_gazebo) (''j1'', EffortJoint) = 50"
    by (simp add: example_gazebo_def)
  note T = inactive_resource_is_not_written[OF f j i d, of "(0, 0)" "(0, 1)" example_gazebo]
  from T have a: "rw_resources (fst (writeSim ref_resources (0, 0) (0, 1)
                     (example_object, example_gazebo))) ! 1 = rw_resources example_object ! 1"
    by blast
  from T have b: "command_target (actuators (snd (writeSim ref_resources (0, 0) (0, 1)
                     (example_object, example_gazebo)))) (res_key (rw_resources example_object ! 1)) =
                  command_target (actuators example_gazebo) (res_key (rw_resources example_object ! 1))"
    by blast
  have k: "res_key \<lparr>res_name = ''j1'', res_kind = EffortJoint,
              buffers = \<lparr>buf_joint = 1, buf_position = 0, buf_command = (9::int)\<rparr>\<rparr> =
           (''j1'', EffortJoint)"
    by (simp add: res_key_def)
  show ?thesis
    using j i d a b by (simp only: r k t simp_thms)
qed

lemma write_safe_stable:
  "write_safe wr target safe \<Longrightarrow> safe k (snd (wr time period e r g)) = safe k g"
  unfolding write_safe_def by blast

lemma write_safe_applied:
  "write_safe wr target safe \<Longrightarrow>
     target (res_key r) (snd (wr time period True r g)) = safe (res_key r) g"
  unfolding write_safe_def
  by (drule spec[of _ time], drule spec[of _ period], drule spec[of _ True],
      drule spec[of _ r], drule spec[of _ g]) (simp only: simp_thms)

text \<open>Every \<^verbatim>\<open>write\<close> of the loop gets the value that \<open>e_stop_active\<close> has at the start.\<close>

lemma write_fold_flag_passed:
  "foldl (write_resource ext time period) (s, g) ixs =
   foldl (write_resource (ext\<lparr>res_write := \<lambda>t p e. res_write ext t p (e_stop_active s)\<rparr>)
            time period) (s, g) ixs"
proof (induction ixs arbitrary: s g)
  case Nil
  show ?case by simp
next
  case (Cons i ixs)
  let ?ext' = "ext\<lparr>res_write := \<lambda>t p e. res_write ext t p (e_stop_active s)\<rparr>"
  obtain s1 g1 where step: "write_resource ext time period (s, g) i = (s1, g1)"
    by (cases "write_resource ext time period (s, g) i")
  have "write_resource ?ext' time period (s, g) i = write_resource ext time period (s, g) i"
    by (cases "i < length (rw_resources s)")
       (simp_all add: write_resource_in_range write_resource_out_of_range)
  then have same: "write_resource ?ext' time period (s, g) i = (s1, g1)"
    using step by simp
  have flag: "e_stop_active s1 = e_stop_active s"
    using write_resource_flags(1)[of ext time period s g i] step by simp
  show ?case
    using Cons.IH[of s1 g1] step same flag by simp
qed

text \<open>
  With the emergency stop active, the loop leaves the safe value in the command target of
  every resource it writes.
\<close>

lemma write_fold_safe:
  assumes frame: "write_frame (res_write ext) target"
      and safe: "write_safe (res_write ext) target safe"
      and stop: "e_stop_active s"
  shows "(\<forall>k. safe k (snd (foldl (write_resource ext time period) (s, g) ixs)) = safe k g) \<and>
         (\<forall>i \<in> set ixs. i < length (rw_resources s) \<longrightarrow>
            target (res_key (rw_resources s ! i))
              (snd (foldl (write_resource ext time period) (s, g) ixs)) =
            safe (res_key (rw_resources s ! i)) g)"
proof (induction ixs rule: rev_induct)
  case Nil
  show ?case by simp
next
  case (snoc x xs)
  obtain s1 g1 where run: "foldl (write_resource ext time period) (s, g) xs = (s1, g1)"
    by (cases "foldl (write_resource ext time period) (s, g) xs")
  have stop1: "e_stop_active s1"
    using write_fold_flags(1)[of ext time period s g xs] run stop by simp
  have len: "length (rw_resources s1) = length (rw_resources s)"
    using write_fold_flags(3)[of ext time period s g xs] run by simp
  have keys: "map res_key (rw_resources s1) = map res_key (rw_resources s)"
    using write_fold_keys[OF frame, of time period s g xs] run by simp
  have key_at: "res_key (rw_resources s1 ! m) = res_key (rw_resources s ! m)"
    if "m < length (rw_resources s)" for m
    using keys that len by (metis nth_map)
  have ih: "(\<forall>k. safe k g1 = safe k g) \<and>
            (\<forall>i \<in> set xs. i < length (rw_resources s) \<longrightarrow>
               target (res_key (rw_resources s ! i)) g1 = safe (res_key (rw_resources s ! i)) g)"
    using snoc.IH[unfolded run snd_conv] .
  have ih_safe: "\<And>k. safe k g1 = safe k g"
    using ih by blast
  have ih_target: "\<And>i. i \<in> set xs \<Longrightarrow> i < length (rw_resources s) \<Longrightarrow>
                     target (res_key (rw_resources s ! i)) g1 = safe (res_key (rw_resources s ! i)) g"
    using ih by blast
  show ?case
  proof (cases "x < length (rw_resources s)")
    case False
    then have "foldl (write_resource ext time period) (s, g) (xs @ [x]) = (s1, g1)"
      using run len by (simp add: write_resource_out_of_range)
    then show ?thesis using ih_safe ih_target False by auto
  next
    case True
    let ?r = "rw_resources s1 ! x"
    let ?g2 = "snd (res_write ext time period True ?r g1)"
    have g2: "snd (foldl (write_resource ext time period) (s, g) (xs @ [x])) = ?g2"
      using run True len stop1 by (simp add: write_resource_in_range)
    have kr: "res_key ?r = res_key (rw_resources s ! x)"
      using key_at True by simp
    have s2: "\<And>k. safe k ?g2 = safe k g"
      using write_safe_stable[OF safe] ih_safe by metis
    have own: "target (res_key ?r) ?g2 = safe (res_key ?r) g"
      using write_safe_applied[OF safe, of ?r time period g1] ih_safe by simp
    have t2: "target (res_key (rw_resources s ! i)) ?g2 = safe (res_key (rw_resources s ! i)) g"
      if i: "i \<in> set (xs @ [x])" "i < length (rw_resources s)" for i
    proof (cases "res_key (rw_resources s ! i) = res_key ?r")
      case True
      then show ?thesis using own by simp
    next
      case False
      then have "i \<noteq> x" using kr by auto
      then have ix: "i \<in> set xs" using i by simp
      have "target (res_key (rw_resources s ! i)) ?g2 = target (res_key (rw_resources s ! i)) g1"
        using write_frame_target[OF frame False] by simp
      then show ?thesis using ih_target[OF ix i(2)] by simp
    qed
    show ?thesis using s2 t2 by (simp only: g2) blast
  qed
qed

lemma initSim_clears_e_stop:
  "fst (initSim ext nh model trs s) \<Longrightarrow> e_stop_active (snd (initSim ext nh model trs s)) = False"
proof -
  assume ok: "fst (initSim ext nh model trs s)"
  obtain b s1 where run: "pair_loop ext nh model (declared_pairs trs) (at_loop_entry trs s) = (b, s1)"
    by (cases "pair_loop ext nh model (declared_pairs trs) (at_loop_entry trs s)")
  have "b" using ok run by (cases b) (simp_all add: initSim_pairs)
  then show ?thesis using run by (simp add: initSim_pairs init_sensors_fields)
qed

text \<open>
  C9. The object has the one flag \<open>e_stop_active\<close>. A successful \<open>initSim\<close> leaves it false.
  \<open>readSim\<close> calls every \<^verbatim>\<open>read\<close> with its value, and \<open>writeSim\<close> every \<^verbatim>\<open>write\<close>: the cycle
  is the one in which \<^verbatim>\<open>write\<close> ignores its own argument and takes the flag of the object.
  When the flag is set and \<^verbatim>\<open>write\<close> is as the specification describes it, the command
  target of every active writer holds its safe value after \<open>writeSim\<close>, whatever the command
  buffers hold; the active-writer set and the flag are as before.
\<close>

theorem emergency_stop_reaches_every_resource:
  assumes frame: "write_frame (res_write ext) target"
      and safe: "write_safe (res_write ext) target safe"
  shows "(fst (initSim ext nh model trs s0) \<longrightarrow>
            e_stop_active (snd (initSim ext nh model trs s0)) = False) \<and>
         rw_resources (readSim ext time period g s) =
           map (res_read ext time period (e_stop_active s) g) (rw_resources s) \<and>
         writeSim ext time period (s, g) =
           writeSim (ext\<lparr>res_write := \<lambda>t p e. res_write ext t p (e_stop_active s)\<rparr>)
             time period (s, g) \<and>
         (e_stop_active s \<longrightarrow>
            (\<forall>i \<in> set (active_w_resources_rt s). i < length (rw_resources s) \<longrightarrow>
               target (res_key (rw_resources s ! i)) (snd (writeSim ext time period (s, g))) =
               safe (res_key (rw_resources s ! i)) g)) \<and>
         active_w_resources_rt (fst (writeSim ext time period (s, g))) = active_w_resources_rt s \<and>
         e_stop_active (fst (writeSim ext time period (s, g))) = e_stop_active s"
proof -
  have a: "fst (initSim ext nh model trs s0) \<longrightarrow>
            e_stop_active (snd (initSim ext nh model trs s0)) = False"
    using initSim_clears_e_stop by blast
  have b: "rw_resources (readSim ext time period g s) =
           map (res_read ext time period (e_stop_active s) g) (rw_resources s)"
    by (simp add: readSim_eq)
  have c: "writeSim ext time period (s, g) =
           writeSim (ext\<lparr>res_write := \<lambda>t p e. res_write ext t p (e_stop_active s)\<rparr>)
             time period (s, g)"
    using write_fold_flag_passed[of ext time period s g "active_w_resources_rt s"]
    by (simp add: writeSim_def)
  have d: "\<forall>i \<in> set (active_w_resources_rt s). i < length (rw_resources s) \<longrightarrow>
               target (res_key (rw_resources s ! i)) (snd (writeSim ext time period (s, g))) =
               safe (res_key (rw_resources s ! i)) g" if "e_stop_active s"
    using write_fold_safe[OF frame safe that, of time period g "active_w_resources_rt s"]
    by (simp add: writeSim_def)
  have e: "active_w_resources_rt (fst (writeSim ext time period (s, g))) = active_w_resources_rt s"
          "e_stop_active (fst (writeSim ext time period (s, g))) = e_stop_active s"
    by (simp_all add: writeSim_def write_fold_flags)
  show ?thesis using a b c d e by blast
qed

theorem emergency_stop_reaches_every_resource_witness:
  "e_stop_active (example_object\<lparr>e_stop_active := True\<rparr>) \<and>
   (0::nat) \<in> set (active_w_resources_rt (example_object\<lparr>e_stop_active := True\<rparr>)) \<and>
   buf_command (buffers (rw_resources (example_object\<lparr>e_stop_active := True\<rparr>) ! 0)) = 5 \<and>
   command_target (actuators (snd (writeSim ref_resources (0, 0) (0, 1)
       (example_object\<lparr>e_stop_active := True\<rparr>, example_gazebo)))) (''j1'', PositionJoint) = 0 \<and>
   fst (initSim ref_resources example_nh example_gazebo []
          (constructed :: (int, int joint_buffers) PalHardwareGazebo)) \<and>
   e_stop_active (snd (initSim ref_resources example_nh example_gazebo []
          (constructed :: (int, int joint_buffers) PalHardwareGazebo))) = False"
proof -
  let ?s = "example_object\<lparr>e_stop_active := True\<rparr>"
  let ?c = "constructed :: (int, int joint_buffers) PalHardwareGazebo"
  have f: "write_frame (res_write ref_resources) (\<lambda>k g. command_target (actuators g) k)"
    using ref_write_frame by (simp add: ref_resources_def)
  have sf: "write_safe (res_write ref_resources) (\<lambda>k g. command_target (actuators g) k) (\<lambda>k g. 0)"
    using ref_write_safe by (simp add: ref_resources_def)
  note T = emergency_stop_reaches_every_resource
             [OF f sf, where s = ?s and g = example_gazebo and time = "(0, 0)" and period = "(0, 1)"
                and nh = example_nh and model = example_gazebo and trs = "[]" and ?s0.0 = ?c]
  have e: "e_stop_active ?s" by simp
  have a: "(0::nat) \<in> set (active_w_resources_rt ?s)"
    by (simp add: example_object_def)
  have l: "(0::nat) < length (rw_resources ?s)"
    by (simp add: example_object_def)
  have r: "rw_resources ?s ! 0 =
             \<lparr>res_name = ''j1'', res_kind = PositionJoint,
              buffers = \<lparr>buf_joint = 1, buf_position = 0, buf_command = 5\<rparr>\<rparr>"
    by (simp add: example_object_def)
  have k: "res_key (rw_resources ?s ! 0) = (''j1'', PositionJoint)"
    unfolding r by (simp add: res_key_def)
  have c: "buf_command (buffers (rw_resources ?s ! 0)) = 5"
    unfolding r by simp
  have i: "fst (initSim ref_resources example_nh example_gazebo [] ?c)"
    by (simp add: initSim_def)
  from T e a l have "command_target (actuators (snd (writeSim ref_resources (0, 0) (0, 1)
                        (?s, example_gazebo)))) (res_key (rw_resources ?s ! 0)) = 0"
    by blast
  then have w: "command_target (actuators (snd (writeSim ref_resources (0, 0) (0, 1)
                        (?s, example_gazebo)))) (''j1'', PositionJoint) = 0"
    unfolding k .
  from T i have z: "e_stop_active (snd (initSim ref_resources example_nh example_gazebo [] ?c)) = False"
    by blast
  show ?thesis using e a c w i z by blast
qed

subsection \<open>The resource loops under the contract of \<^verbatim>\<open>init\<close>\<close>

lemma contract_Inl:
  assumes "init_contract init nh model" and "init v n nh model h = Inl e"
  shows "e = ExistingResourceException \<longleftrightarrow> n \<in> set (handle_names h v)"
proof -
  have "case init v n nh model h of
          Inl e \<Rightarrow> (e = ExistingResourceException \<longleftrightarrow> n \<in> set (handle_names h v))
        | Inr (r, h') \<Rightarrow>
            n \<notin> set (handle_names h v) \<and> GetJoint model n \<noteq> None \<and>
            res_name r = n \<and> res_kind r = v \<and>
            (\<forall>v'. set (handle_names h' v') =
                    set (handle_names h v') \<union> (if v' = v then {n} else {}))"
    using assms(1) unfolding init_contract_def by blast
  then show ?thesis using assms(2) by simp
qed

lemma contract_Inr:
  assumes "init_contract init nh model" and "init v n nh model h = Inr (r, h')"
  shows "n \<notin> set (handle_names h v)" and "GetJoint model n \<noteq> None"
    and "res_name r = n" and "res_kind r = v"
    and "set (handle_names h' v') = set (handle_names h v') \<union> (if v' = v then {n} else {})"
proof -
  have "case init v n nh model h of
          Inl e \<Rightarrow> (e = ExistingResourceException \<longleftrightarrow> n \<in> set (handle_names h v))
        | Inr (r, h') \<Rightarrow>
            n \<notin> set (handle_names h v) \<and> GetJoint model n \<noteq> None \<and>
            res_name r = n \<and> res_kind r = v \<and>
            (\<forall>v'. set (handle_names h' v') =
                    set (handle_names h v') \<union> (if v' = v then {n} else {}))"
    using assms(1) unfolding init_contract_def by blast
  then have all: "n \<notin> set (handle_names h v) \<and> GetJoint model n \<noteq> None \<and>
            res_name r = n \<and> res_kind r = v \<and>
            (\<forall>v'. set (handle_names h' v') =
                    set (handle_names h v') \<union> (if v' = v then {n} else {}))"
    using assms(2) by simp
  show "n \<notin> set (handle_names h v)" using all by blast
  show "GetJoint model n \<noteq> None" using all by blast
  show "res_name r = n" using all by blast
  show "res_kind r = v" using all by blast
  show "set (handle_names h' v') = set (handle_names h v') \<union> (if v' = v then {n} else {})"
    using all by blast
qed

text \<open>The four outcomes of one pair.\<close>

lemma add_resource_cases:
  obtains (skipped) "new_resource t = None" "add_resource ext nh model n t s = (True, s)"
  | (existing) v where "new_resource t = Some v"
      "res_init ext v n nh model (hw s) = Inl ExistingResourceException"
      "add_resource ext nh model n t s = (True, s)"
  | (fatal) v e where "new_resource t = Some v" "res_init ext v n nh model (hw s) = Inl e"
      "e \<noteq> ExistingResourceException" "add_resource ext nh model n t s = (False, s)"
  | (added) v r h where "new_resource t = Some v" "res_init ext v n nh model (hw s) = Inr (r, h)"
      "add_resource ext nh model n t s =
         (True, s\<lparr>hw := h, rw_resources := rw_resources s @ [r]\<rparr>)"
proof (cases "new_resource t")
  case None
  then show ?thesis using skipped add_resource_unrecognised by blast
next
  case (Some v)
  show ?thesis
  proof (cases "res_init ext v n nh model (hw s)")
    case (Inl e)
    show ?thesis
    proof (cases "e = ExistingResourceException")
      case True
      then show ?thesis using existing Some Inl add_resource_existing by blast
    next
      case False
      then show ?thesis using fatal[OF Some Inl False] add_resource_fatal[OF Some Inl False] by blast
    qed
  next
    case (Inr x)
    obtain r h where x: "x = (r, h)" by (cases x)
    show ?thesis using added[OF Some Inr[unfolded x]] add_resource_ok[OF Some Inr[unfolded x]] by blast
  qed
qed

lemma add_resource_False:
  "add_resource ext nh model n t s = (False, s') \<Longrightarrow> s' = s"
  by (cases rule: add_resource_cases[of t ext nh model n s]) auto

lemma add_resource_inv:
  assumes contract: "init_contract (res_init ext) nh model"
      and inv: "resources_registered model s"
  shows "resources_registered model (snd (add_resource ext nh model n t s))"
proof (cases rule: add_resource_cases[of t ext nh model n s])
  case skipped
  then show ?thesis using inv by simp
next
  case (existing v)
  then show ?thesis using inv by simp
next
  case (fatal v e)
  then show ?thesis using inv by simp
next
  case (added v r h)
  note c = contract_Inr[OF contract added(2)]
  have fresh_key: "(n, v) \<notin> set (map res_key (rw_resources s))"
    using c(1) inv unfolding resources_registered_def by blast
  have key: "res_key r = (n, v)" using c(3,4) by (simp add: res_key_def)
  have d: "distinct (map res_key (rw_resources s @ [r]))"
    using inv fresh_key key unfolding resources_registered_def by simp
  have h: "\<forall>v' n'. n' \<in> set (handle_names h v') \<longleftrightarrow>
             (n', v') \<in> set (map res_key (rw_resources s @ [r]))"
  proof (intro allI)
    fix v' n'
    have "n' \<in> set (handle_names h v') \<longleftrightarrow>
            n' \<in> set (handle_names (hw s) v') \<or> (v' = v \<and> n' = n)"
      using c(5)[of v'] by auto
    also have "\<dots> \<longleftrightarrow> (n', v') \<in> set (map res_key (rw_resources s)) \<or> (n', v') = (n, v)"
      using inv unfolding resources_registered_def by auto
    finally show "n' \<in> set (handle_names h v') \<longleftrightarrow>
             (n', v') \<in> set (map res_key (rw_resources s @ [r]))"
      using key by auto
  qed
  have j: "\<forall>r' \<in> set (rw_resources s @ [r]). GetJoint model (res_name r') \<noteq> None"
    using inv c(2,3) unfolding resources_registered_def by auto
  show ?thesis
    using d h j added(3) unfolding resources_registered_def by simp
qed

lemma pair_loop_inv:
  assumes contract: "init_contract (res_init ext) nh model"
      and inv: "resources_registered model s"
  shows "resources_registered model (snd (pair_loop ext nh model ps s))"
  using inv
proof (induction ps arbitrary: s)
  case Nil
  then show ?case by simp
next
  case (Cons p ps)
  obtain b s1 where step: "add_resource ext nh model (fst p) (snd p) s = (b, s1)"
    by (cases "add_resource ext nh model (fst p) (snd p) s")
  have inv1: "resources_registered model s1"
    using add_resource_inv[OF contract Cons.prems, of "fst p" "snd p"] step by simp
  show ?case
    using step inv1 Cons.IH[OF inv1] by (cases b) simp_all
qed

lemma no_resources_inv:
  "no_resources s \<Longrightarrow> resources_registered model (at_loop_entry trs s)"
  by (simp add: no_resources_def resources_registered_def at_loop_entry_fields)

text \<open>The resources only grow, and a pair that is passed has its resource.\<close>

lemma add_resource_grows:
  "set (rw_resources s) \<subseteq> set (rw_resources (snd (add_resource ext nh model n t s)))"
  by (cases rule: add_resource_cases[of t ext nh model n s]) auto

lemma pair_loop_grows:
  "set (rw_resources s) \<subseteq> set (rw_resources (snd (pair_loop ext nh model ps s)))"
proof (induction ps arbitrary: s)
  case Nil
  show ?case by simp
next
  case (Cons p ps)
  obtain b s1 where step: "add_resource ext nh model (fst p) (snd p) s = (b, s1)"
    by (cases "add_resource ext nh model (fst p) (snd p) s")
  have "set (rw_resources s) \<subseteq> set (rw_resources s1)"
    using add_resource_grows[of s ext nh model "fst p" "snd p"] step by simp
  then show ?case using step Cons.IH[of s1] by (cases b) auto
qed

lemma add_resource_has_resource:
  assumes contract: "init_contract (res_init ext) nh model"
      and inv: "resources_registered model s"
      and v: "new_resource t = Some v"
      and ok: "add_resource ext nh model n t s = (True, s')"
  shows "(n, v) \<in> set (map res_key (rw_resources s'))"
proof (cases rule: add_resource_cases[of t ext nh model n s])
  case skipped
  then show ?thesis using v by simp
next
  case (existing v')
  then have "n \<in> set (handle_names (hw s) v)"
    using contract_Inl[OF contract existing(2)] v by simp
  then show ?thesis using inv existing(3) ok unfolding resources_registered_def by auto
next
  case (fatal v' e)
  then show ?thesis using ok by simp
next
  case (added v' r h)
  have "res_key r = (n, v)"
    using contract_Inr(3,4)[OF contract added(2)] added(1) v by (simp add: res_key_def)
  then show ?thesis using added(3) ok by auto
qed

lemma pair_loop_has_resource:
  assumes contract: "init_contract (res_init ext) nh model"
      and inv: "resources_registered model s"
      and ok: "pair_loop ext nh model ps s = (True, s')"
      and p: "(n, t) \<in> set ps"
      and v: "new_resource t = Some v"
  shows "(n, v) \<in> set (map res_key (rw_resources s'))"
  using inv ok p
proof (induction ps arbitrary: s)
  case Nil
  then show ?case by simp
next
  case (Cons q qs)
  obtain b s1 where step: "add_resource ext nh model (fst q) (snd q) s = (b, s1)"
    by (cases "add_resource ext nh model (fst q) (snd q) s")
  have b: "b" using Cons.prems(2) step by (cases b) simp_all
  have rest: "pair_loop ext nh model qs s1 = (True, s')"
    using Cons.prems(2) step b by simp
  have inv1: "resources_registered model s1"
    using add_resource_inv[OF contract Cons.prems(1), of "fst q" "snd q"] step by simp
  show ?case
  proof (cases "q = (n, t)")
    case True
    have "(n, v) \<in> set (map res_key (rw_resources s1))"
      using add_resource_has_resource[OF contract Cons.prems(1) v, of n s1] step b True by simp
    moreover have "set (rw_resources s1) \<subseteq> set (rw_resources s')"
      using pair_loop_grows[of s1 ext nh model qs] rest by simp
    ultimately show ?thesis by auto
  next
    case False
    then have "(n, t) \<in> set qs" using Cons.prems(3) by auto
    then show ?thesis using Cons.IH[OF inv1 rest] by simp
  qed
qed

text \<open>A recognised pair whose joint is not in the model stops the loops.\<close>

lemma add_resource_missing_joint:
  assumes contract: "init_contract (res_init ext) nh model"
      and inv: "resources_registered model s"
      and v: "new_resource t = Some v"
      and missing: "GetJoint model n = None"
  shows "add_resource ext nh model n t s = (False, s)"
proof (cases rule: add_resource_cases[of t ext nh model n s])
  case skipped
  then show ?thesis using v by simp
next
  case (existing v')
  then have "n \<in> set (handle_names (hw s) v')"
    using contract_Inl[OF contract existing(2)] by simp
  then have "(n, v') \<in> set (map res_key (rw_resources s))"
    using inv unfolding resources_registered_def by blast
  then obtain r where "r \<in> set (rw_resources s)" "res_name r = n"
    by (auto simp: res_key_def)
  then show ?thesis using inv missing unfolding resources_registered_def by auto
next
  case (fatal v' e)
  then show ?thesis by simp
next
  case (added v' r h)
  then show ?thesis using contract_Inr(2)[OF contract added(2)] missing by simp
qed

lemma pair_loop_missing_joint:
  assumes contract: "init_contract (res_init ext) nh model"
      and inv: "resources_registered model s"
      and p: "(n, t) \<in> set ps"
      and v: "new_resource t = Some v"
      and missing: "GetJoint model n = None"
  shows "fst (pair_loop ext nh model ps s) = False"
  using inv p
proof (induction ps arbitrary: s)
  case Nil
  then show ?case by simp
next
  case (Cons q qs)
  obtain b s1 where step: "add_resource ext nh model (fst q) (snd q) s = (b, s1)"
    by (cases "add_resource ext nh model (fst q) (snd q) s")
  have inv1: "resources_registered model s1"
    using add_resource_inv[OF contract Cons.prems(1), of "fst q" "snd q"] step by simp
  show ?case
  proof (cases b)
    case False
    then show ?thesis using step by simp
  next
    case True
    have "q \<noteq> (n, t)"
      using add_resource_missing_joint[OF contract Cons.prems(1) v missing] step True by auto
    then have "(n, t) \<in> set qs" using Cons.prems(2) by auto
    then show ?thesis using Cons.IH[OF inv1] step True by simp
  qed
qed

lemma pair_loop_False_prefix:
  assumes "pair_loop ext nh model ps s = (False, s')"
  shows "\<exists>pre p post. ps = pre @ p # post \<and> pair_loop ext nh model pre s = (True, s') \<and>
           add_resource ext nh model (fst p) (snd p) s' = (False, s')"
  using assms
proof (induction ps arbitrary: s)
  case Nil
  then show ?case by simp
next
  case (Cons q qs)
  obtain b s1 where step: "add_resource ext nh model (fst q) (snd q) s = (b, s1)"
    by (cases "add_resource ext nh model (fst q) (snd q) s")
  show ?case
  proof (cases b)
    case False
    then have "s' = s1" using Cons.prems step by simp
    moreover have "s1 = s"
      using add_resource_False[of ext nh model "fst q" "snd q" s s1] step False by simp
    ultimately have "q # qs = [] @ q # qs \<and> pair_loop ext nh model [] s = (True, s') \<and>
           add_resource ext nh model (fst q) (snd q) s' = (False, s')"
      using step False by simp
    then show ?thesis by blast
  next
    case True
    then have "pair_loop ext nh model qs s1 = (False, s')" using Cons.prems step by simp
    then obtain pre p post where
      "qs = pre @ p # post" "pair_loop ext nh model pre s1 = (True, s')"
      "add_resource ext nh model (fst p) (snd p) s' = (False, s')"
      using Cons.IH by blast
    then have "q # qs = (q # pre) @ p # post \<and> pair_loop ext nh model (q # pre) s = (True, s') \<and>
           add_resource ext nh model (fst p) (snd p) s' = (False, s')"
      using step True by simp
    then show ?thesis by blast
  qed
qed

lemma distinct_filter_one:
  assumes "distinct (map f xs)" and "k \<in> set (map f xs)"
  shows "length (filter (\<lambda>x. f x = k) xs) = 1"
  using assms
proof (induction xs)
  case Nil
  then show ?case by simp
next
  case (Cons x xs)
  show ?case
  proof (cases "f x = k")
    case True
    then have "k \<notin> set (map f xs)" using Cons.prems(1) by auto
    then have "filter (\<lambda>x. f x = k) xs = []" by (auto simp: filter_empty_conv)
    then show ?thesis using True by simp
  next
    case False
    then show ?thesis using Cons by auto
  qed
qed

lemma initSim_resources:
  "rw_resources (snd (initSim ext nh model trs s)) =
     rw_resources (snd (pair_loop ext nh model (declared_pairs trs) (at_loop_entry trs s)))"
proof -
  obtain b s1 where run: "pair_loop ext nh model (declared_pairs trs) (at_loop_entry trs s) = (b, s1)"
    by (cases "pair_loop ext nh model (declared_pairs trs) (at_loop_entry trs s)")
  show ?thesis using run by (cases b) (simp_all add: initSim_pairs init_sensors_fields)
qed

lemma initSim_result:
  "fst (initSim ext nh model trs s) =
     fst (pair_loop ext nh model (declared_pairs trs) (at_loop_entry trs s))"
proof -
  obtain b s1 where run: "pair_loop ext nh model (declared_pairs trs) (at_loop_entry trs s) = (b, s1)"
    by (cases "pair_loop ext nh model (declared_pairs trs) (at_loop_entry trs s)")
  show ?thesis using run by (cases b) (simp_all add: initSim_pairs)
qed

text \<open>The four interface types of lines 151 to 166 and the class that each one creates.\<close>

lemma new_resource_recognised:
  "(t, v) \<in> set [(''hardware_interface/JointStateInterface'', JointState),
                   (''hardware_interface/PositionJointInterface'', PositionJoint),
                   (''hardware_interface/VelocityJointInterface'', VelocityJoint),
                   (''hardware_interface/EffortJointInterface'', EffortJoint)] \<Longrightarrow>
   new_resource t = Some v"
  by (auto simp: new_resource_def)

lemma no_resources_constructed: "no_resources constructed"
  unfolding no_resources_def
proof (intro conjI allI)
  show "rw_resources constructed = []" by (simp add: constructed_def)
  fix v show "handle_names (hw constructed) v = []" by (cases v) (simp_all add: constructed_def)
qed

text \<open>
  C4. \<^verbatim>\<open>init\<close> is as the specification describes it and \<open>initSim\<close> starts on an object without
  resources. A pair with one of the four interface types whose \<^verbatim>\<open>init\<close> reports that the
  resource exists leaves the object as it is and the loops go on. After \<open>initSim\<close>, failed or
  not, no two resources have the same joint and class. When \<open>initSim\<close> succeeds, a joint that
  declares the joint-state, position, velocity or effort interface type, however often, has
  exactly one resource of class \<open>JointState\<close>, \<open>PositionJoint\<close>, \<open>VelocityJoint\<close> or
  \<open>EffortJoint\<close> respectively.
\<close>

theorem one_resource_per_joint_and_class:
  assumes contract: "init_contract (res_init ext) nh model"
      and fresh: "no_resources s"
  shows "((t, v) \<in> set [(''hardware_interface/JointStateInterface'', JointState),
                        (''hardware_interface/PositionJointInterface'', PositionJoint),
                        (''hardware_interface/VelocityJointInterface'', VelocityJoint),
                        (''hardware_interface/EffortJointInterface'', EffortJoint)] \<and>
            res_init ext v n nh model (hw s1) = Inl ExistingResourceException \<longrightarrow>
            add_resource ext nh model n t s1 = (True, s1)) \<and>
         distinct (map res_key (rw_resources (snd (initSim ext nh model trs s)))) \<and>
         (fst (initSim ext nh model trs s) \<longrightarrow>
            (\<forall>tr_info \<in> set trs. \<forall>joint_info \<in> set (joints tr_info).
               \<forall>iface_type \<in> set (hardware_interfaces joint_info). \<forall>cls.
                 (iface_type, cls) \<in>
                    set [(''hardware_interface/JointStateInterface'', JointState),
                         (''hardware_interface/PositionJointInterface'', PositionJoint),
                         (''hardware_interface/VelocityJointInterface'', VelocityJoint),
                         (''hardware_interface/EffortJointInterface'', EffortJoint)] \<longrightarrow>
                 length (filter (\<lambda>r. res_name r = jname joint_info \<and> res_kind r = cls)
                           (rw_resources (snd (initSim ext nh model trs s)))) = 1))"
proof -
  let ?ps = "declared_pairs trs"
  let ?s0 = "at_loop_entry trs s"
  let ?tab = "[(''hardware_interface/JointStateInterface'', JointState),
               (''hardware_interface/PositionJointInterface'', PositionJoint),
               (''hardware_interface/VelocityJointInterface'', VelocityJoint),
               (''hardware_interface/EffortJointInterface'', EffortJoint)]"
  obtain b s' where run: "pair_loop ext nh model ?ps ?s0 = (b, s')"
    by (cases "pair_loop ext nh model ?ps ?s0")
  have inv0: "resources_registered model ?s0"
    using fresh by (rule no_resources_inv)
  have inv: "resources_registered model s'"
    using pair_loop_inv[OF contract inv0, of ?ps] run by simp
  have res: "rw_resources (snd (initSim ext nh model trs s)) = rw_resources s'"
    using run by (simp add: initSim_resources)
  have a: "(t, v) \<in> set ?tab \<and>
            res_init ext v n nh model (hw s1) = Inl ExistingResourceException \<longrightarrow>
            add_resource ext nh model n t s1 = (True, s1)"
    using add_resource_existing new_resource_recognised by blast
  have d: "distinct (map res_key (rw_resources s'))"
    using inv unfolding resources_registered_def by blast
  have one: "length (filter (\<lambda>r. res_name r = jname joint_info \<and> res_kind r = cls)
               (rw_resources s')) = 1"
    if ok: "fst (initSim ext nh model trs s)"
      and decl: "tr_info \<in> set trs" "joint_info \<in> set (joints tr_info)"
                "iface_type \<in> set (hardware_interfaces joint_info)"
      and tab: "(iface_type, cls) \<in> set ?tab"
    for tr_info joint_info iface_type cls
  proof -
    have cls: "new_resource iface_type = Some cls"
      using tab by (rule new_resource_recognised)
    have b: "b" using ok run by (simp add: initSim_result)
    have p: "(jname joint_info, iface_type) \<in> set ?ps"
      using decl by (auto simp: set_declared_pairs)
    have "(jname joint_info, cls) \<in> set (map res_key (rw_resources s'))"
      using pair_loop_has_resource[OF contract inv0 _ p cls, of s'] run b by simp
    then have "length (filter (\<lambda>r. res_key r = (jname joint_info, cls)) (rw_resources s')) = 1"
      using d by (rule distinct_filter_one[rotated])
    then show ?thesis by (simp add: res_key_def)
  qed
  show ?thesis
    unfolding res using a d one by blast
qed

theorem one_resource_per_joint_and_class_witness:
  "no_resources (constructed :: (int, int joint_buffers) PalHardwareGazebo) \<and>
   fst (initSim ref_resources example_nh example_gazebo
          [joint_with ''j1'' [''hardware_interface/VelocityJointInterface''],
           joint_with ''j1'' [''hardware_interface/VelocityJointInterface'',
                              ''hardware_interface/EffortJointInterface'']]
          (constructed :: (int, int joint_buffers) PalHardwareGazebo)) \<and>
   map res_key (rw_resources (snd (initSim ref_resources example_nh example_gazebo
          [joint_with ''j1'' [''hardware_interface/VelocityJointInterface''],
           joint_with ''j1'' [''hardware_interface/VelocityJointInterface'',
                              ''hardware_interface/EffortJointInterface'']]
          (constructed :: (int, int joint_buffers) PalHardwareGazebo)))) =
     [(''j1'', VelocityJoint), (''j1'', EffortJoint)] \<and>
   length (filter (\<lambda>r. res_name r = ''j1'' \<and> res_kind r = VelocityJoint)
     (rw_resources (snd (initSim ref_resources example_nh example_gazebo
          [joint_with ''j1'' [''hardware_interface/VelocityJointInterface''],
           joint_with ''j1'' [''hardware_interface/VelocityJointInterface'',
                              ''hardware_interface/EffortJointInterface'']]
          (constructed :: (int, int joint_buffers) PalHardwareGazebo))))) = 1"
proof -
  let ?c = "constructed :: (int, int joint_buffers) PalHardwareGazebo"
  let ?j = "\<lparr>jname = ''j1'', hardware_interfaces = [''hardware_interface/VelocityJointInterface'',
                                ''hardware_interface/EffortJointInterface'']\<rparr>"
  let ?tr = "joint_with ''j1'' [''hardware_interface/VelocityJointInterface'',
                                ''hardware_interface/EffortJointInterface'']"
  let ?trs = "[joint_with ''j1'' [''hardware_interface/VelocityJointInterface''], ?tr]"
  have c: "init_contract (res_init ref_resources) example_nh example_gazebo"
    using ref_init_contract[of example_nh example_gazebo] by (simp add: ref_resources_def)
  have f: "no_resources ?c" by (rule no_resources_constructed)
  have ok: "fst (initSim ref_resources example_nh example_gazebo ?trs ?c)"
    by (simp add: eval_init)
  have keys: "map res_key (rw_resources (snd (initSim ref_resources example_nh example_gazebo ?trs ?c))) =
                [(''j1'', VelocityJoint), (''j1'', EffortJoint)]"
    by (simp add: eval_init)
  have m1: "?tr \<in> set ?trs" by simp
  have m2: "?j \<in> set (joints ?tr)" by (simp add: joint_with_def)
  have m3: "''hardware_interface/VelocityJointInterface'' \<in> set (hardware_interfaces ?j)"
    by simp
  have m4: "(''hardware_interface/VelocityJointInterface'', VelocityJoint) \<in>
              set [(''hardware_interface/JointStateInterface'', JointState),
                   (''hardware_interface/PositionJointInterface'', PositionJoint),
                   (''hardware_interface/VelocityJointInterface'', VelocityJoint),
                   (''hardware_interface/EffortJointInterface'', EffortJoint)]"
    by simp
  note T = one_resource_per_joint_and_class[OF c f, where trs = ?trs]
  from T ok m1 m2 m3 m4 have
    "length (filter (\<lambda>r. res_name r = jname ?j \<and> res_kind r = VelocityJoint)
       (rw_resources (snd (initSim ref_resources example_nh example_gazebo ?trs ?c)))) = 1"
    by blast
  then have one: "length (filter (\<lambda>r. res_name r = ''j1'' \<and> res_kind r = VelocityJoint)
       (rw_resources (snd (initSim ref_resources example_nh example_gazebo ?trs ?c)))) = 1"
    by simp
  show ?thesis using f ok keys one by blast
qed

text \<open>
  C3. \<^verbatim>\<open>init\<close> is as the specification describes it and \<open>initSim\<close> starts on an object without
  resources. When a declared joint with one of the four interface types is not in the model,
  \<open>initSim\<close> returns failure, and it does not roll back. The declared pairs split into the
  pairs \<open>pre\<close> that the loops passed, the pair \<open>p\<close> at which the resource could not be added,
  and the rest; the object that \<open>initSim\<close> leaves is the object that the loops over \<open>pre\<close>
  built. So every pair of \<open>pre\<close> with one of the four interface types has its resource in
  the object, and the members that the later steps of \<open>initSim\<close> set are as they were.
\<close>

theorem missing_joint_fails_initSim:
  assumes contract: "init_contract (res_init ext) nh model"
      and fresh: "no_resources s"
      and decl: "tr_info \<in> set trs" "joint_info \<in> set (joints tr_info)"
                "iface_type \<in> set (hardware_interfaces joint_info)"
      and rec: "iface_type \<in> set [''hardware_interface/JointStateInterface'',
                                   ''hardware_interface/PositionJointInterface'',
                                   ''hardware_interface/VelocityJointInterface'',
                                   ''hardware_interface/EffortJointInterface'']"
      and missing: "GetJoint model (jname joint_info) = None"
  shows "\<exists>pre p post s'.
           initSim ext nh model trs s = (False, s') \<and>
           declared_pairs trs = pre @ p # post \<and>
           pair_loop ext nh model pre (at_loop_entry trs s) = (True, s') \<and>
           add_resource ext nh model (fst p) (snd p) s' = (False, s') \<and>
           (\<forall>q \<in> set pre. \<forall>cls.
              (snd q, cls) \<in> set [(''hardware_interface/JointStateInterface'', JointState),
                                   (''hardware_interface/PositionJointInterface'', PositionJoint),
                                   (''hardware_interface/VelocityJointInterface'', VelocityJoint),
                                   (''hardware_interface/EffortJointInterface'', EffortJoint)] \<longrightarrow>
              (\<exists>r \<in> set (rw_resources s'). res_name r = fst q \<and> res_kind r = cls)) \<and>
           active_w_resources_rt s' = active_w_resources_rt s \<and>
           e_stop_active s' = e_stop_active s \<and>
           forceTorqueSensorDefinitions s' = forceTorqueSensorDefinitions s \<and>
           ft_sensor_interface s' = ft_sensor_interface s \<and>
           imu_sensor_interface s' = imu_sensor_interface s"
proof -
  let ?ps = "declared_pairs trs"
  let ?s0 = "at_loop_entry trs s"
  obtain cls0 where cls0: "new_resource iface_type = Some cls0"
    using rec by (auto simp: new_resource_def)
  obtain b s' where run: "pair_loop ext nh model ?ps ?s0 = (b, s')"
    by (cases "pair_loop ext nh model ?ps ?s0")
  have inv0: "resources_registered model ?s0"
    using fresh by (rule no_resources_inv)
  have p: "(jname joint_info, iface_type) \<in> set ?ps"
    using decl by (auto simp: set_declared_pairs)
  have b: "b = False"
    using pair_loop_missing_joint[OF contract inv0 p cls0 missing] run by simp
  have r: "initSim ext nh model trs s = (False, s')"
    using run b by (simp add: initSim_pairs)
  obtain pre q post where split: "?ps = pre @ q # post"
      and pre: "pair_loop ext nh model pre ?s0 = (True, s')"
      and stop: "add_resource ext nh model (fst q) (snd q) s' = (False, s')"
    using pair_loop_False_prefix[of ext nh model ?ps ?s0 s'] run b by blast
  have kept: "\<exists>r \<in> set (rw_resources s'). res_name r = fst x \<and> res_kind r = cls"
    if x: "x \<in> set pre"
      and tab: "(snd x, cls) \<in> set [(''hardware_interface/JointStateInterface'', JointState),
                                   (''hardware_interface/PositionJointInterface'', PositionJoint),
                                   (''hardware_interface/VelocityJointInterface'', VelocityJoint),
                                   (''hardware_interface/EffortJointInterface'', EffortJoint)]"
    for x cls
  proof -
    have c: "new_resource (snd x) = Some cls"
      using tab by (rule new_resource_recognised)
    have "(fst x, snd x) \<in> set pre" using x by simp
    then have "(fst x, cls) \<in> set (map res_key (rw_resources s'))"
      using pair_loop_has_resource[OF contract inv0 pre _ c] by blast
    then show ?thesis by (auto simp: res_key_def)
  qed
  have s': "s' = snd (pair_loop ext nh model ?ps ?s0)"
    using run by simp
  have fields: "active_w_resources_rt s' = active_w_resources_rt s"
    "e_stop_active s' = e_stop_active s"
    "forceTorqueSensorDefinitions s' = forceTorqueSensorDefinitions s"
    "ft_sensor_interface s' = ft_sensor_interface s"
    "imu_sensor_interface s' = imu_sensor_interface s"
    by (simp_all add: s' pair_loop_sensor_fields at_loop_entry_fields)
  show ?thesis
    using r split pre stop kept fields by blast
qed

theorem missing_joint_fails_initSim_witness:
  "no_resources (constructed :: (int, int joint_buffers) PalHardwareGazebo) \<and>
   GetJoint example_gazebo ''j2'' = None \<and>
   (\<exists>pre p post s'.
      initSim ref_resources example_nh example_gazebo
        [joint_with ''j1'' [''hardware_interface/PositionJointInterface''],
         joint_with ''j2'' [''hardware_interface/VelocityJointInterface'']]
        (constructed :: (int, int joint_buffers) PalHardwareGazebo) = (False, s') \<and>
      declared_pairs [joint_with ''j1'' [''hardware_interface/PositionJointInterface''],
                      joint_with ''j2'' [''hardware_interface/VelocityJointInterface'']] =
        pre @ p # post \<and>
      pair_loop ref_resources example_nh example_gazebo pre
        (at_loop_entry [joint_with ''j1'' [''hardware_interface/PositionJointInterface''],
                        joint_with ''j2'' [''hardware_interface/VelocityJointInterface'']]
           constructed) = (True, s') \<and>
      add_resource ref_resources example_nh example_gazebo (fst p) (snd p) s' = (False, s') \<and>
      active_w_resources_rt s' = [] \<and> forceTorqueSensorDefinitions s' = [] \<and>
      ft_sensor_interface s' = []) \<and>
   map res_key (rw_resources (snd (initSim ref_resources example_nh example_gazebo
        [joint_with ''j1'' [''hardware_interface/PositionJointInterface''],
         joint_with ''j2'' [''hardware_interface/VelocityJointInterface'']]
        (constructed :: (int, int joint_buffers) PalHardwareGazebo)))) = [(''j1'', PositionJoint)]"
proof -
  let ?c = "constructed :: (int, int joint_buffers) PalHardwareGazebo"
  let ?tr = "joint_with ''j2'' [''hardware_interface/VelocityJointInterface'']"
  let ?trs = "[joint_with ''j1'' [''hardware_interface/PositionJointInterface''], ?tr]"
  let ?j = "\<lparr>jname = ''j2'', hardware_interfaces = [''hardware_interface/VelocityJointInterface'']\<rparr>"
  have c: "init_contract (res_init ref_resources) example_nh example_gazebo"
    using ref_init_contract[of example_nh example_gazebo] by (simp add: ref_resources_def)
  have f: "no_resources ?c" by (rule no_resources_constructed)
  have m1: "?tr \<in> set ?trs" by simp
  have m2: "?j \<in> set (joints ?tr)" by (simp add: joint_with_def)
  have m3: "''hardware_interface/VelocityJointInterface'' \<in> set (hardware_interfaces ?j)" by simp
  have m4: "''hardware_interface/VelocityJointInterface'' \<in>
              set [''hardware_interface/JointStateInterface'',
                   ''hardware_interface/PositionJointInterface'',
                   ''hardware_interface/VelocityJointInterface'',
                   ''hardware_interface/EffortJointInterface'']"
    by simp
  have m5: "GetJoint example_gazebo (jname ?j) = None"
    by (simp add: example_gazebo_def)
  have m5': "GetJoint example_gazebo ''j2'' = None"
    by (simp add: example_gazebo_def)
  have e: "active_w_resources_rt ?c = []" "forceTorqueSensorDefinitions ?c = []"
          "ft_sensor_interface ?c = []"
    by (simp_all add: constructed_def)
  have keys: "map res_key (rw_resources (snd (initSim ref_resources example_nh example_gazebo ?trs ?c))) =
                [(''j1'', PositionJoint)]"
    by (simp add: eval_init)
  from missing_joint_fails_initSim[OF c f m1 m2 m3 m4 m5]
  obtain pre p post s' where
    "initSim ref_resources example_nh example_gazebo ?trs ?c = (False, s')"
    "declared_pairs ?trs = pre @ p # post"
    "pair_loop ref_resources example_nh example_gazebo pre (at_loop_entry ?trs ?c) = (True, s')"
    "add_resource ref_resources example_nh example_gazebo (fst p) (snd p) s' = (False, s')"
    "active_w_resources_rt s' = active_w_resources_rt ?c"
    "forceTorqueSensorDefinitions s' = forceTorqueSensorDefinitions ?c"
    "ft_sensor_interface s' = ft_sensor_interface ?c"
    by blast
  then have "\<exists>pre p post s'.
      initSim ref_resources example_nh example_gazebo ?trs ?c = (False, s') \<and>
      declared_pairs ?trs = pre @ p # post \<and>
      pair_loop ref_resources example_nh example_gazebo pre (at_loop_entry ?trs ?c) = (True, s') \<and>
      add_resource ref_resources example_nh example_gazebo (fst p) (snd p) s' = (False, s') \<and>
      active_w_resources_rt s' = [] \<and> forceTorqueSensorDefinitions s' = [] \<and>
      ft_sensor_interface s' = []"
    unfolding e by blast
  then show ?thesis using f m5' keys by blast
qed

text \<open>
  C3, as the specification states it, asks for all or nothing. Joint \<open>j1\<close> is in the model
  and joint \<open>j2\<close> is not: \<open>initSim\<close> returns failure, and the resource and the handle of
  \<open>j1\<close> are in the object.
\<close>

theorem missing_joint_leaves_earlier_resources:
  "fst (initSim ref_resources example_nh example_gazebo
          [joint_with ''j1'' [''hardware_interface/PositionJointInterface''],
           joint_with ''j2'' [''hardware_interface/PositionJointInterface'']]
          (constructed :: (int, int joint_buffers) PalHardwareGazebo)) = False \<and>
   map res_key (rw_resources (snd (initSim ref_resources example_nh example_gazebo
          [joint_with ''j1'' [''hardware_interface/PositionJointInterface''],
           joint_with ''j2'' [''hardware_interface/PositionJointInterface'']]
          (constructed :: (int, int joint_buffers) PalHardwareGazebo)))) = [(''j1'', PositionJoint)] \<and>
   pj_interface (hw (snd (initSim ref_resources example_nh example_gazebo
          [joint_with ''j1'' [''hardware_interface/PositionJointInterface''],
           joint_with ''j2'' [''hardware_interface/PositionJointInterface'']]
          (constructed :: (int, int joint_buffers) PalHardwareGazebo)))) = [''j1''] \<and>
   rw_resources (snd (initSim ref_resources example_nh example_gazebo
          [joint_with ''j1'' [''hardware_interface/PositionJointInterface''],
           joint_with ''j2'' [''hardware_interface/PositionJointInterface'']]
          (constructed :: (int, int joint_buffers) PalHardwareGazebo))) \<noteq>
     rw_resources (constructed :: (int, int joint_buffers) PalHardwareGazebo)"
  by (simp add: eval_init)

end
